theory Spec2Isabelle
  imports Main "HOL-Library.Word"
begin

section \<open>Errors\<close>

text \<open>
  Go's \<^verbatim>\<open>error\<close> values that occur in \<^verbatim>\<open>db/client.go\<close> and in the connector
  configuration repository. A Go result \<^verbatim>\<open>error\<close> is an \<open>error option\<close> (\<open>None\<close> is
  \<^verbatim>\<open>nil\<close>); a result \<^verbatim>\<open>(*T, error)\<close> whose pointer is \<^verbatim>\<open>nil\<close> exactly on error is
  \<open>error + T\<close>; a result \<^verbatim>\<open>(bool, error)\<close> is a pair.
\<close>

datatype error =
    CorruptInputError           \<comment> \<open>\<^verbatim>\<open>base64.CorruptInputError\<close> (the offset is dropped)\<close>
  | BcryptError string          \<comment> \<open>an error of \<^verbatim>\<open>golang.org/x/crypto/bcrypt\<close>\<close>
  | JsonError string            \<comment> \<open>an error of \<^verbatim>\<open>encoding/json\<close>\<close>
  | RandError string            \<comment> \<open>an error of the secret generator\<close>
  | DriverError string          \<comment> \<open>an error of the database driver, with its code\<close>
  | ErrNoRows                   \<comment> \<open>\<^verbatim>\<open>sql.ErrNoRows\<close>\<close>
  | ErrTxDone                   \<comment> \<open>\<^verbatim>\<open>sql.ErrTxDone\<close>\<close>
  | ClientErrorNotFound         \<comment> \<open>\<^verbatim>\<open>client.ErrorNotFound\<close>\<close>
  | ConnectorErrorNotFound      \<comment> \<open>\<^verbatim>\<open>connector.ErrorNotFound\<close>\<close>
  | UnknownTypeError string     \<comment> \<open>the type registry's error for an unregistered tag\<close>
  | ErrorsNew string            \<comment> \<open>\<^verbatim>\<open>errors.New(msg)\<close>\<close>
  | NoSecret string             \<comment> \<open>\<^verbatim>\<open>fmt.Errorf("client %q has no secret", id)\<close>\<close>
  | InsertFailed error          \<comment> \<open>\<^verbatim>\<open>fmt.Errorf("DB insert failed %#v: %v", insert, err)\<close>\<close>

section \<open>Constants of \<^verbatim>\<open>db/client.go\<close>\<close>

definition bcryptHashCost :: nat where
  "bcryptHashCost = 10"

text \<open>
  Blowfish has a maximum password length of 72; the source tracks it explicitly
  because the bcrypt library silently ignores what follows the first 72 bytes.
\<close>

definition maxSecretLength :: nat where
  "maxSecretLength = 72"

definition pgErrorCodeUniqueViolation :: string where
  "pgErrorCodeUniqueViolation = ''23505''"

section \<open>\<^verbatim>\<open>base64.URLEncoding\<close>\<close>

text \<open>
  The padded URL-safe alphabet of Go's \<^verbatim>\<open>encoding/base64\<close>. The encoder packs three
  bytes into a 24-bit value (\<^verbatim>\<open>src[0]<<16 | src[1]<<8 | src[2]\<close>) and emits its four
  6-bit digits; the decoder packs four digits (\<^verbatim>\<open>d0<<18 | d1<<12 | d2<<6 | d3\<close>) and
  emits the three bytes. The fields do not overlap, so the shifts and ors are written
  as products and sums on \<open>nat\<close>; \<^verbatim>\<open>byte(val >> k)\<close> is \<open>of_nat (val div 2 ^ k)\<close> into
  an 8-bit word, which truncates.
\<close>

type_synonym byte = "8 word"

definition encodeURL :: string where
  "encodeURL = ''ABCDEFGHIJKLMNOPQRSTUVWXYZabcdefghijklmnopqrstuvwxyz0123456789-_''"

definition padChar :: char where
  "padChar = CHR ''=''"

definition enc6 :: "nat \<Rightarrow> char" where
  \<comment> \<open>\<^verbatim>\<open>enc.encode[v & 0x3F]\<close>\<close>
  "enc6 v = encodeURL ! (v mod 64)"

fun index_of :: "char \<Rightarrow> string \<Rightarrow> nat \<Rightarrow> nat option" where
  "index_of c [] i = None"
| "index_of c (x # xs) i = (if x = c then Some i else index_of c xs (Suc i))"

definition decodeMap :: "char \<Rightarrow> nat option" where
  \<comment> \<open>\<^verbatim>\<open>enc.decodeMap[c]\<close>; \<open>None\<close> is the source's 0xFF\<close>
  "decodeMap c = index_of c encodeURL 0"

fun EncodeToString :: "byte list \<Rightarrow> string" where
  "EncodeToString (a # b # c # rest) =
     (let val = unat a * 65536 + unat b * 256 + unat c
      in enc6 (val div 262144) # enc6 (val div 4096) # enc6 (val div 64) # enc6 val #
         EncodeToString rest)"
| "EncodeToString [a, b] =
     (let val = unat a * 65536 + unat b * 256
      in [enc6 (val div 262144), enc6 (val div 4096), enc6 (val div 64), padChar])"
| "EncodeToString [a] =
     (let val = unat a * 65536
      in [enc6 (val div 262144), enc6 (val div 4096), padChar, padChar])"
| "EncodeToString [] = []"

definition quantum :: "nat \<Rightarrow> nat \<Rightarrow> nat \<Rightarrow> nat \<Rightarrow> nat" where
  "quantum d0 d1 d2 d3 = d0 * 262144 + d1 * 4096 + d2 * 64 + d3"

text \<open>
  One decoding step per group of four characters. Padding is accepted only in the
  last group (\<^verbatim>\<open>xx==\<close> gives one byte, \<^verbatim>\<open>xxx=\<close> two); anything after it, a
  character outside the alphabet, or a last group of fewer than four characters is
  corrupt input. The unused low bits of a padded group are not checked, as in the
  source's non-strict mode.
\<close>

fun decodeQuanta :: "string \<Rightarrow> byte list option" where
  "decodeQuanta (a # b # c # d # rest) =
     (case (decodeMap a, decodeMap b) of
        (Some d0, Some d1) \<Rightarrow>
          if c = padChar then
            (if d = padChar \<and> rest = []
             then Some [of_nat (quantum d0 d1 0 0 div 65536)]
             else None)
          else (case decodeMap c of
             None \<Rightarrow> None
           | Some d2 \<Rightarrow>
               if d = padChar then
                 (if rest = []
                  then Some [of_nat (quantum d0 d1 d2 0 div 65536),
                             of_nat (quantum d0 d1 d2 0 div 256)]
                  else None)
               else (case decodeMap d of
                  None \<Rightarrow> None
                | Some d3 \<Rightarrow>
                   (case decodeQuanta rest of
                      None \<Rightarrow> None
                    | Some bs \<Rightarrow> Some (of_nat (quantum d0 d1 d2 d3 div 65536) #
                                       of_nat (quantum d0 d1 d2 d3 div 256) #
                                       of_nat (quantum d0 d1 d2 d3) # bs))))
      | _ \<Rightarrow> None)"
| "decodeQuanta [] = Some []"
| "decodeQuanta _ = None"

definition DecodeString :: "string \<Rightarrow> error + byte list" where
  \<comment> \<open>carriage returns and line feeds are skipped wherever they stand\<close>
  "DecodeString s =
     (case decodeQuanta (filter (\<lambda>c. c \<noteq> CHR 0x0A \<and> c \<noteq> CHR 0x0D) s) of
        None \<Rightarrow> Inl CorruptInputError
      | Some bs \<Rightarrow> Inr bs)"

section \<open>External collaborators\<close>

text \<open>
  \<^verbatim>\<open>golang.org/x/crypto/bcrypt\<close>, \<^verbatim>\<open>encoding/json\<close> on \<^verbatim>\<open>oidc.ClientMetadata\<close> and
  \<^verbatim>\<open>pkg/crypto.RandBytes\<close> are not part of the files verified here: they are
  parameters of the model. The metadata type is the type variable \<open>'m\<close>.
\<close>

record bcrypt =
  GenerateFromPassword :: "byte list \<Rightarrow> nat \<Rightarrow> error + byte list"
  CompareHashAndPassword :: "byte list \<Rightarrow> byte list \<Rightarrow> error option"

record 'm json =
  Marshal :: "'m \<Rightarrow> error + string"
  Unmarshal :: "string \<Rightarrow> error + 'm"

section \<open>The relational executor\<close>

text \<open>
  The gorp executor behind both repositories, for one table with a string primary
  key. A table is the list of its rows in insertion order. \<open>db_faults\<close> scripts the
  backend: each statement sent to it takes the head of the list, and \<open>Some e\<close>
  there makes that statement fail with \<open>e\<close> and change nothing. \<open>db_unique_err\<close> is
  the error the driver in use reports when an insert collides with the primary key.
\<close>

record 'r db =
  db_rows :: "'r list"
  db_faults :: "error option list"
  db_unique_err :: error

definition next_fault :: "'r db \<Rightarrow> error option \<times> 'r db" where
  "next_fault s =
     (case db_faults s of
        [] \<Rightarrow> (None, s)
      | f # fs \<Rightarrow> (f, s\<lparr>db_faults := fs\<rparr>))"

definition backend_ok :: "nat \<Rightarrow> 'r db \<Rightarrow> bool" where
  \<comment> \<open>the next \<open>n\<close> statements reach the backend and are answered\<close>
  "backend_ok n s = list_all (\<lambda>f. f = None) (take n (db_faults s))"

definition exec_Get :: "('r \<Rightarrow> string) \<Rightarrow> string \<Rightarrow> 'r db \<Rightarrow> ('r option \<times> error option) \<times> 'r db" where
  \<comment> \<open>\<^verbatim>\<open>Get(model, key)\<close>: \<^verbatim>\<open>(nil, nil)\<close> when no row has the key\<close>
  "exec_Get key k s =
     (case next_fault s of
        (Some e, s') \<Rightarrow> ((None, Some e), s')
      | (None, s') \<Rightarrow> ((find (\<lambda>r. key r = k) (db_rows s'), None), s'))"

definition exec_Insert :: "('r \<Rightarrow> string) \<Rightarrow> 'r \<Rightarrow> 'r db \<Rightarrow> error option \<times> 'r db" where
  "exec_Insert key r s =
     (case next_fault s of
        (Some e, s') \<Rightarrow> (Some e, s')
      | (None, s') \<Rightarrow>
          if key r \<in> set (map key (db_rows s'))
          then (Some (db_unique_err s'), s')
          else (None, s'\<lparr>db_rows := db_rows s' @ [r]\<rparr>))"

fun exec_Insert_list :: "('r \<Rightarrow> string) \<Rightarrow> 'r list \<Rightarrow> 'r db \<Rightarrow> error option \<times> 'r db" where
  \<comment> \<open>the variadic \<^verbatim>\<open>Insert(list...)\<close>: one insert per row, stopping at the first error\<close>
  "exec_Insert_list key [] s = (None, s)"
| "exec_Insert_list key (r # rs) s =
     (case exec_Insert key r s of
        (Some e, s') \<Rightarrow> (Some e, s')
      | (None, s') \<Rightarrow> exec_Insert_list key rs s')"

definition exec_Update :: "('r \<Rightarrow> string) \<Rightarrow> 'r \<Rightarrow> 'r db \<Rightarrow> (error + nat) \<times> 'r db" where
  \<comment> \<open>\<^verbatim>\<open>Update(row)\<close>: the number of rows changed, or an error\<close>
  "exec_Update key r s =
     (case next_fault s of
        (Some e, s') \<Rightarrow> (Inl e, s')
      | (None, s') \<Rightarrow>
          (Inr (length (filter (\<lambda>x. key x = key r) (db_rows s'))),
           s'\<lparr>db_rows := map (\<lambda>x. if key x = key r then r else x) (db_rows s')\<rparr>))"

definition exec_Select :: "'r db \<Rightarrow> (error + 'r list) \<times> 'r db" where
  \<comment> \<open>\<^verbatim>\<open>SELECT * FROM table\<close>\<close>
  "exec_Select s =
     (case next_fault s of
        (Some e, s') \<Rightarrow> (Inl e, s')
      | (None, s') \<Rightarrow> (Inr (db_rows s'), s'))"

definition exec_SelectOne :: "('r \<Rightarrow> string) \<Rightarrow> string \<Rightarrow> 'r db \<Rightarrow> (error + 'r) \<times> 'r db" where
  \<comment> \<open>\<^verbatim>\<open>SELECT * FROM table WHERE id = $1\<close>, \<^verbatim>\<open>sql.ErrNoRows\<close> when nothing matches\<close>
  "exec_SelectOne key k s =
     (case next_fault s of
        (Some e, s') \<Rightarrow> (Inl e, s')
      | (None, s') \<Rightarrow>
          (case find (\<lambda>r. key r = k) (db_rows s') of
             None \<Rightarrow> (Inl ErrNoRows, s')
           | Some r \<Rightarrow> (Inr r, s')))"

definition exec_Delete_all :: "'r db \<Rightarrow> error option \<times> 'r db" where
  \<comment> \<open>\<^verbatim>\<open>DELETE FROM table\<close>\<close>
  "exec_Delete_all s =
     (case next_fault s of
        (Some e, s') \<Rightarrow> (Some e, s')
      | (None, s') \<Rightarrow> (None, s'\<lparr>db_rows := []\<rparr>))"

subsection \<open>Transactions\<close>

text \<open>
  A transaction handle remembers the rows at \<^verbatim>\<open>Begin\<close>; statements inside the
  transaction work on the table itself, so they see their own writes. \<^verbatim>\<open>Commit\<close>
  closes the handle and keeps the writes, and a commit the backend refuses aborts
  the transaction. \<^verbatim>\<open>Rollback\<close> restores the remembered rows, and does nothing on a
  closed handle (the deferred \<^verbatim>\<open>tx.Rollback()\<close> after a commit).
\<close>

record 'r tx =
  tx_undo :: "'r list"
  tx_done :: bool

definition Begin :: "'r db \<Rightarrow> (error + 'r tx) \<times> 'r db" where
  "Begin s =
     (case next_fault s of
        (Some e, s') \<Rightarrow> (Inl e, s')
      | (None, s') \<Rightarrow> (Inr \<lparr>tx_undo = db_rows s', tx_done = False\<rparr>, s'))"

definition Commit :: "'r tx \<Rightarrow> 'r db \<Rightarrow> error option \<times> 'r tx \<times> 'r db" where
  "Commit t s =
     (if tx_done t then (Some ErrTxDone, t, s)
      else (case next_fault s of
              (Some e, s') \<Rightarrow> (Some e, t\<lparr>tx_done := True\<rparr>, s'\<lparr>db_rows := tx_undo t\<rparr>)
            | (None, s') \<Rightarrow> (None, t\<lparr>tx_done := True\<rparr>, s')))"

definition Rollback :: "'r tx \<Rightarrow> 'r db \<Rightarrow> 'r db" where
  "Rollback t s = (if tx_done t then s else s\<lparr>db_rows := tx_undo t\<rparr>)"

section \<open>The client repository (\<^verbatim>\<open>db/client.go\<close>)\<close>

record ClientCredentials =
  ID :: string
  Secret :: string

record 'm Client =
  Credentials :: ClientCredentials
  Metadata :: 'm
  Admin :: bool

text \<open>A row of \<^verbatim>\<open>client_identity\<close>; the primary key is \<open>cm_ID\<close>.\<close>

record clientModel =
  cm_ID :: string
  cm_Secret :: "byte list"
  cm_Metadata :: string
  cm_DexAdmin :: bool

definition newClientModel :: "bcrypt \<Rightarrow> 'm json \<Rightarrow> 'm Client \<Rightarrow> error + clientModel" where
  "newClientModel bc js cli =
     (case DecodeString (Secret (Credentials cli)) of
        Inl err \<Rightarrow> Inl err
      | Inr secretBytes \<Rightarrow>
          (case GenerateFromPassword bc secretBytes bcryptHashCost of
             Inl err \<Rightarrow> Inl err
           | Inr hashed \<Rightarrow>
               (case Marshal js (Metadata cli) of
                  Inl err \<Rightarrow> Inl err
                | Inr bmeta \<Rightarrow>
                    Inr \<lparr>cm_ID = ID (Credentials cli), cm_Secret = hashed,
                         cm_Metadata = bmeta, cm_DexAdmin = Admin cli\<rparr>)))"

definition Client_of :: "'m json \<Rightarrow> clientModel \<Rightarrow> error + 'm Client" where
  \<comment> \<open>the method \<^verbatim>\<open>(m *clientModel) Client()\<close>; the secret of the result is empty\<close>
  "Client_of js m =
     (case Unmarshal js (cm_Metadata m) of
        Inl err \<Rightarrow> Inl err
      | Inr meta \<Rightarrow>
          Inr \<lparr>Credentials = \<lparr>ID = cm_ID m, Secret = []\<rparr>, Metadata = meta,
               Admin = cm_DexAdmin m\<rparr>)"

text \<open>
  \<^verbatim>\<open>type SecretGenerator func() ([]byte, error)\<close>, and the repository that holds one.
  The database handle of the source's \<^verbatim>\<open>clientRepo\<close> is the state passed to each
  operation. \<^verbatim>\<open>r.executor(tx)\<close> is the executor of the transaction when one is given
  and of the connection otherwise: both work on that state.
\<close>

type_synonym SecretGenerator = "unit \<Rightarrow> error + byte list"

record clientRepo =
  secretGenerator :: SecretGenerator

definition DefaultSecretGenerator :: "(nat \<Rightarrow> error + byte list) \<Rightarrow> SecretGenerator" where
  \<comment> \<open>the argument is \<^verbatim>\<open>pcrypto.RandBytes\<close>\<close>
  "DefaultSecretGenerator RandBytes = (\<lambda>_. RandBytes maxSecretLength)"

definition newClientRepo :: "(nat \<Rightarrow> error + byte list) \<Rightarrow> clientRepo" where
  "newClientRepo RandBytes = \<lparr>secretGenerator = DefaultSecretGenerator RandBytes\<rparr>"

definition NewClientRepoWithSecretGenerator :: "(nat \<Rightarrow> error + byte list) \<Rightarrow> SecretGenerator \<Rightarrow> clientRepo" where
  "NewClientRepoWithSecretGenerator RandBytes secGen =
     (newClientRepo RandBytes)\<lparr>secretGenerator := secGen\<rparr>"

fun insert_clients :: "bcrypt \<Rightarrow> 'm json \<Rightarrow> 'm Client list \<Rightarrow> clientModel db \<Rightarrow> error option \<times> clientModel db" where
  \<comment> \<open>the loop of \<^verbatim>\<open>NewClientRepoFromClients\<close>\<close>
  "insert_clients bc js [] s = (None, s)"
| "insert_clients bc js (c # cs) s =
     (if Secret (Credentials c) = []
      then (Some (NoSecret (ID (Credentials c))), s)
      else (case newClientModel bc js c of
              Inl err \<Rightarrow> (Some err, s)
            | Inr cm \<Rightarrow>
                (case exec_Insert cm_ID cm s of
                   (Some err, s') \<Rightarrow> (Some err, s')
                 | (None, s') \<Rightarrow> insert_clients bc js cs s')))"

definition NewClientRepoFromClients ::
  "(nat \<Rightarrow> error + byte list) \<Rightarrow> bcrypt \<Rightarrow> 'm json \<Rightarrow> 'm Client list \<Rightarrow> clientModel db
     \<Rightarrow> (error + clientRepo) \<times> clientModel db" where
  "NewClientRepoFromClients RandBytes bc js clients s =
     (let repo = newClientRepo RandBytes in
      case Begin s of
        (Inl err, s1) \<Rightarrow> (Inl err, s1)
      | (Inr t, s1) \<Rightarrow>
          (case (case insert_clients bc js clients s1 of
                   (Some err, s2) \<Rightarrow> (Inl err, t, s2)
                 | (None, s2) \<Rightarrow>
                     (case Commit t s2 of
                        (Some err, t', s3) \<Rightarrow> (Inl err, t', s3)
                      | (None, t', s3) \<Rightarrow> (Inr repo, t', s3)))
           of (res, t', s') \<Rightarrow> (res, Rollback t' s')))"

definition Get :: "'m json \<Rightarrow> string \<Rightarrow> clientModel db \<Rightarrow> (error + 'm Client) \<times> clientModel db" where
  "Get js clientID s =
     (case exec_Get cm_ID clientID s of
        ((m, err), s') \<Rightarrow>
          if err = Some ErrNoRows \<or> m = None then (Inl ClientErrorNotFound, s')
          else (case err of
                  Some e \<Rightarrow> (Inl e, s')
                | None \<Rightarrow>
                    (case m of
                       None \<Rightarrow> (Inl ClientErrorNotFound, s')
                     | Some cim \<Rightarrow> (Client_of js cim, s'))))"

definition IsDexAdmin :: "string \<Rightarrow> clientModel db \<Rightarrow> (bool \<times> error option) \<times> clientModel db" where
  "IsDexAdmin clientID s =
     (case exec_Get cm_ID clientID s of
        ((m, err), s') \<Rightarrow>
          (case m of
             None \<Rightarrow> ((False, err), s')
           | Some cim \<Rightarrow>
               if err \<noteq> None then ((False, err), s')
               else ((cm_DexAdmin cim, None), s')))"

definition SetDexAdmin :: "string \<Rightarrow> bool \<Rightarrow> clientModel db \<Rightarrow> error option \<times> clientModel db" where
  "SetDexAdmin clientID isAdmin s =
     (case Begin s of
        (Inl err, s1) \<Rightarrow> (Some err, s1)
      | (Inr t, s1) \<Rightarrow>
          (case (case exec_Get cm_ID clientID s1 of
                   ((m, err), s2) \<Rightarrow>
                     (case m of
                        None \<Rightarrow> (err, t, s2)
                      | Some cim \<Rightarrow>
                          if err \<noteq> None then (err, t, s2)
                          else (case exec_Update cm_ID (cim\<lparr>cm_DexAdmin := isAdmin\<rparr>) s2 of
                                  (Inl err', s3) \<Rightarrow> (Some err', t, s3)
                                | (Inr _, s3) \<Rightarrow> Commit t s3)))
           of (res, t', s') \<Rightarrow> (res, Rollback t' s')))"

definition Authenticate :: "bcrypt \<Rightarrow> ClientCredentials \<Rightarrow> clientModel db \<Rightarrow> (bool \<times> error option) \<times> clientModel db" where
  "Authenticate bc creds s =
     (case exec_Get cm_ID (ID creds) s of
        ((m, err), s') \<Rightarrow>
          (case m of
             None \<Rightarrow> ((False, err), s')
           | Some cim \<Rightarrow>
               if err \<noteq> None then ((False, err), s')
               else (case DecodeString (Secret creds) of
                       Inl _ \<Rightarrow> ((False, None), s')
                     | Inr dec \<Rightarrow>
                         if length dec > maxSecretLength then ((False, None), s')
                         else ((CompareHashAndPassword bc (cm_Secret cim) dec = None, None), s'))))"

text \<open>
  The type assertion \<^verbatim>\<open>m.(*clientModel)\<close> of the source cannot fail here: the
  executor above is typed by its table, so the branch "unrecognized model" has no
  counterpart.
\<close>

definition registerAlreadyExistsChecker :: "(error \<Rightarrow> bool) list \<Rightarrow> (error \<Rightarrow> bool) \<Rightarrow> (error \<Rightarrow> bool) list" where
  \<comment> \<open>the package variable \<^verbatim>\<open>alreadyExistsCheckers\<close> is passed explicitly\<close>
  "registerAlreadyExistsChecker alreadyExistsCheckers f = alreadyExistsCheckers @ [f]"

fun isAlreadyExistsErr :: "(error \<Rightarrow> bool) list \<Rightarrow> error \<Rightarrow> bool" where
  "isAlreadyExistsErr [] err = False"
| "isAlreadyExistsErr (checker # checkers) err =
     (if checker err then True else isAlreadyExistsErr checkers err)"

definition New ::
  "clientRepo \<Rightarrow> bcrypt \<Rightarrow> 'm json \<Rightarrow> (error \<Rightarrow> bool) list \<Rightarrow> 'm Client \<Rightarrow> clientModel db
     \<Rightarrow> (error + ClientCredentials) \<times> clientModel db" where
  "New r bc js alreadyExistsCheckers cli s =
     (case secretGenerator r () of
        Inl err \<Rightarrow> (Inl err, s)
      | Inr secret \<Rightarrow>
          (let cli' = cli\<lparr>Credentials := (Credentials cli)\<lparr>Secret := EncodeToString secret\<rparr>\<rparr>
           in case newClientModel bc js cli' of
                Inl err \<Rightarrow> (Inl err, s)
              | Inr cim \<Rightarrow>
                  (case exec_Insert cm_ID cim s of
                     (Some err, s') \<Rightarrow>
                       (Inl (if isAlreadyExistsErr alreadyExistsCheckers err
                             then ErrorsNew ''client ID already exists'' else err), s')
                   | (None, s') \<Rightarrow>
                       (Inr \<lparr>ID = ID (Credentials cli'), Secret = Secret (Credentials cli')\<rparr>, s'))))"

section \<open>The connector configuration repository\<close>

text \<open>A row of \<^verbatim>\<open>connector_config\<close>; the primary key is \<open>cc_ID\<close>.\<close>

record connectorConfigModel =
  cc_ID :: string
  cc_Type :: string
  cc_Config :: string

text \<open>
  The package \<^verbatim>\<open>connector\<close> is not among the files verified here. A configuration
  is a value of the type variable \<open>'c\<close>; the methods of the interface
  \<^verbatim>\<open>connector.ConnectorConfig\<close>, its JSON coding and the registry of types are the
  fields of this record. \<open>types\<close> maps a tag to the empty configuration its
  registered constructor returns.
\<close>

record 'c connector =
  ConnectorID :: "'c \<Rightarrow> string"
  ConnectorType :: "'c \<Rightarrow> string"
  cfg_Marshal :: "'c \<Rightarrow> error + string"
  cfg_Unmarshal :: "string \<Rightarrow> 'c \<Rightarrow> error + 'c"
  types :: "string \<rightharpoonup> 'c"

text \<open>
  Modelled from the spec: \<^verbatim>\<open>connector.NewConnectorConfigFromType\<close> is missing from the
  sources at hand. The specification gives it as
  \<^verbatim>\<open>NewConfigForType(tag) -> empty config | UnknownTypeError\<close>, a closed mapping from
  tag to constructor in which an unknown tag is an error.
\<close>

definition NewConnectorConfigFromType :: "'c connector \<Rightarrow> string \<Rightarrow> error + 'c" where
  "NewConnectorConfigFromType cp ctype =
     (case types cp ctype of
        None \<Rightarrow> Inl (UnknownTypeError ctype)
      | Some cfg \<Rightarrow> Inr cfg)"

definition newConnectorConfigModel :: "'c connector \<Rightarrow> 'c \<Rightarrow> error + connectorConfigModel" where
  "newConnectorConfigModel cp cfg =
     (case cfg_Marshal cp cfg of
        Inl err \<Rightarrow> Inl err
      | Inr b \<Rightarrow> Inr \<lparr>cc_ID = ConnectorID cp cfg, cc_Type = ConnectorType cp cfg, cc_Config = b\<rparr>)"

definition ConnectorConfig :: "'c connector \<Rightarrow> connectorConfigModel \<Rightarrow> error + 'c" where
  "ConnectorConfig cp m =
     (case NewConnectorConfigFromType cp (cc_Type m) of
        Inl err \<Rightarrow> Inl err
      | Inr cfg \<Rightarrow> cfg_Unmarshal cp (cc_Config m) cfg)"

text \<open>
  The methods \<^verbatim>\<open>All\<close> and \<^verbatim>\<open>Set\<close> of \<^verbatim>\<open>ConnectorConfigRepo\<close> carry the name of their
  receiver, since \<open>All\<close> is the universal quantifier of HOL. The database handle
  \<^verbatim>\<open>r.dbMap\<close> is the state passed to each operation.
\<close>

fun All_loop :: "'c connector \<Rightarrow> connectorConfigModel list \<Rightarrow> error + 'c list" where
  \<comment> \<open>the loop of \<^verbatim>\<open>ConnectorConfigRepo.All\<close>: the first row that fails ends the call\<close>
  "All_loop cp [] = Inr []"
| "All_loop cp (m # ms) =
     (case ConnectorConfig cp m of
        Inl err \<Rightarrow> Inl err
      | Inr cfg \<Rightarrow>
          (case All_loop cp ms of
             Inl err \<Rightarrow> Inl err
           | Inr cfgs \<Rightarrow> Inr (cfg # cfgs)))"

definition ConnectorConfigRepo_All :: "'c connector \<Rightarrow> connectorConfigModel db \<Rightarrow> (error + 'c list) \<times> connectorConfigModel db" where
  "ConnectorConfigRepo_All cp s =
     (case exec_Select s of
        (Inl err, s') \<Rightarrow> (Inl err, s')
      | (Inr objs, s') \<Rightarrow> (All_loop cp objs, s'))"

definition GetConnectorByID :: "'c connector \<Rightarrow> string \<Rightarrow> connectorConfigModel db \<Rightarrow> (error + 'c) \<times> connectorConfigModel db" where
  "GetConnectorByID cp connID s =
     (case exec_SelectOne cc_ID connID s of
        (Inl err, s') \<Rightarrow>
          if err = ErrNoRows then (Inl ConnectorErrorNotFound, s') else (Inl err, s')
      | (Inr c, s') \<Rightarrow> (ConnectorConfig cp c, s'))"

fun Set_models :: "'c connector \<Rightarrow> 'c list \<Rightarrow> error + connectorConfigModel list" where
  \<comment> \<open>the first loop of \<^verbatim>\<open>ConnectorConfigRepo.Set\<close>, which fills the slice \<^verbatim>\<open>insert\<close>\<close>
  "Set_models cp [] = Inr []"
| "Set_models cp (cfg # cfgs) =
     (case newConnectorConfigModel cp cfg of
        Inl err \<Rightarrow> Inl err
      | Inr m \<Rightarrow>
          (case Set_models cp cfgs of
             Inl err \<Rightarrow> Inl err
           | Inr ms \<Rightarrow> Inr (m # ms)))"

definition ConnectorConfigRepo_Set :: "'c connector \<Rightarrow> 'c list \<Rightarrow> connectorConfigModel db \<Rightarrow> error option \<times> connectorConfigModel db" where
  "ConnectorConfigRepo_Set cp cfgs s =
     (case Set_models cp cfgs of
        Inl err \<Rightarrow> (Some err, s)
      | Inr to_insert \<Rightarrow>
          (case Begin s of
             (Inl err, s1) \<Rightarrow> (Some err, s1)
           | (Inr t, s1) \<Rightarrow>
               (case (case exec_Delete_all s1 of
                        (Some err, s2) \<Rightarrow> (Some err, t, s2)
                      | (None, s2) \<Rightarrow>
                          (case exec_Insert_list cc_ID to_insert s2 of
                             (Some err, s3) \<Rightarrow> (Some (InsertFailed err), t, s3)
                           | (None, s3) \<Rightarrow> Commit t s3))
                of (res, t', s') \<Rightarrow> (res, Rollback t' s'))))"

section \<open>A read-back predicate for connector configurations\<close>

text \<open>
  A configuration reads back when the row written for it by \<open>newConnectorConfigModel\<close>
  is turned into the same configuration by \<open>ConnectorConfig\<close>: its tag is registered
  and its JSON text decodes to it.
\<close>

definition reads_back :: "'c connector \<Rightarrow> 'c \<Rightarrow> bool" where
  "reads_back cp cfg =
     (case newConnectorConfigModel cp cfg of
        Inl _ \<Rightarrow> True
      | Inr m \<Rightarrow> ConnectorConfig cp m = Inr cfg)"

section \<open>Concrete instances\<close>

text \<open>
  Small stand-ins for the external collaborators, used to evaluate the model on
  concrete inputs: a hash that keeps the first 72 bytes of the password (what bcrypt
  looks at), a JSON coding of metadata that is the identity on text, a byte source
  that counts, the PostgreSQL checker for unique violations, and a connector package
  with two registered types whose JSON text is the identifier and whose decoder
  rejects the empty text.
\<close>

definition example_bcrypt :: bcrypt where
  "example_bcrypt =
     \<lparr>GenerateFromPassword = (\<lambda>password cost. Inr (take 72 password)),
      CompareHashAndPassword = (\<lambda>hashed password.
         if hashed = take 72 password then None
         else Some (BcryptError ''hashedPassword is not the hash of the given password''))\<rparr>"

definition example_json :: "string json" where
  "example_json = \<lparr>Marshal = Inr, Unmarshal = Inr\<rparr>"

definition example_RandBytes :: "nat \<Rightarrow> error + byte list" where
  "example_RandBytes n = Inr (map of_nat [0..<n])"

definition example_checkers :: "(error \<Rightarrow> bool) list" where
  "example_checkers =
     registerAlreadyExistsChecker [] (\<lambda>err. err = DriverError pgErrorCodeUniqueViolation)"

definition example_db :: "'r list \<Rightarrow> 'r db" where
  "example_db rs =
     \<lparr>db_rows = rs, db_faults = [], db_unique_err = DriverError pgErrorCodeUniqueViolation\<rparr>"

definition example_client :: "string Client" where
  "example_client =
     \<lparr>Credentials = \<lparr>ID = ''app'', Secret = []\<rparr>, Metadata = ''{}'', Admin = False\<rparr>"


definition example_row :: clientModel where
  "example_row = \<lparr>cm_ID = ''app'', cm_Secret = [1, 2, 3], cm_Metadata = ''{}'', cm_DexAdmin = True\<rparr>"

definition example_clients :: "string Client list" where
  "example_clients =
     map (\<lambda>(i, sec). \<lparr>Credentials = \<lparr>ID = i, Secret = sec\<rparr>, Metadata = ''{}'', Admin = False\<rparr>)
       [(''a'', ''AQID''), (''b'', ''AQID''), (''c'', []), (''d'', ''AQID''), (''e'', ''AQID'')]"

definition example_connector :: "(string \<times> string) connector" where
  "example_connector =
     \<lparr>ConnectorID = fst, ConnectorType = snd,
      cfg_Marshal = (\<lambda>cfg. Inr (fst cfg)),
      cfg_Unmarshal = (\<lambda>b cfg. if b = [] then Inl (JsonError ''unexpected end of JSON input'')
                               else Inr (b, snd cfg)),
      types = [''X'' \<mapsto> ([], ''X''), ''Y'' \<mapsto> ([], ''Y'')]\<rparr>"

definition example_config_row :: "string \<Rightarrow> string \<Rightarrow> string \<Rightarrow> connectorConfigModel" where
  "example_config_row i t c = \<lparr>cc_ID = i, cc_Type = t, cc_Config = c\<rparr>"

definition example_fixed_generator :: SecretGenerator where
  "example_fixed_generator = (\<lambda>_. Inr [1, 2, 3])"

section \<open>Base64: decoding inverts encoding\<close>

lemma index_of_nth: "distinct xs \<Longrightarrow> i < length xs \<Longrightarrow> index_of (xs ! i) xs k = Some (k + i)"
proof (induction xs arbitrary: i k)
  case Nil then show ?case by simp
next
  case (Cons x xs)
  show ?case
  proof (cases i)
    case 0 then show ?thesis by simp
  next
    case (Suc j)
    with Cons.prems have "xs ! j \<noteq> x" "j < length xs" "distinct xs" by auto
    with Cons.IH[of j "Suc k"] Suc show ?thesis by simp
  qed
qed

lemma distinct_encodeURL: "distinct encodeURL"
  unfolding encodeURL_def by simp

lemma length_encodeURL: "length encodeURL = 64"
  unfolding encodeURL_def by simp

lemma decodeMap_enc6: "decodeMap (enc6 v) = Some (v mod 64)"
  unfolding decodeMap_def enc6_def
  using index_of_nth[OF distinct_encodeURL, of "v mod 64" 0] by (simp add: length_encodeURL)

lemma enc6_in_alphabet: "enc6 v \<in> set encodeURL"
  unfolding enc6_def by (rule nth_mem) (simp add: length_encodeURL)

lemma enc6_not_pad: "enc6 v \<noteq> padChar"
proof -
  have "padChar \<notin> set encodeURL" unfolding padChar_def encodeURL_def by simp
  then show ?thesis using enc6_in_alphabet[of v] by metis
qed

lemma enc6_not_newline: "enc6 v \<noteq> CHR 0x0A" "enc6 v \<noteq> CHR 0x0D"
proof -
  have "CHR 0x0A \<notin> set encodeURL" "CHR 0x0D \<notin> set encodeURL"
    unfolding encodeURL_def by simp_all
  then show "enc6 v \<noteq> CHR 0x0A" "enc6 v \<noteq> CHR 0x0D"
    using enc6_in_alphabet[of v] by metis+
qed

lemma quantum_sextets:
  assumes "v < 16777216"
  shows "quantum (v div 262144 mod 64) (v div 4096 mod 64) (v div 64 mod 64) (v mod 64) = v"
proof -
  define w where "w = v div 64"
  define x where "x = w div 64"
  define y where "y = x div 64"
  have d1: "v div 4096 = x" unfolding x_def w_def by (simp add: div_mult2_eq)
  have d2: "v div 262144 = y" unfolding y_def x_def w_def by (simp add: div_mult2_eq)
  have y64: "y < 64" using assms unfolding d2[symmetric] by simp
  have "v = w * 64 + v mod 64" unfolding w_def by simp
  moreover have "w = x * 64 + w mod 64" unfolding x_def by simp
  moreover have "x = y * 64 + x mod 64" unfolding y_def by simp
  ultimately have "v = y * 262144 + (x mod 64) * 4096 + (w mod 64) * 64 + v mod 64"
    by simp
  then show ?thesis unfolding quantum_def d1 d2 w_def[symmetric] using y64 by simp
qed

lemma unat_byte: "unat (a :: byte) < 256"
  using unsigned_less[of a, where 'a = nat] by simp

lemma of_nat_byte: "n mod 256 = unat (c :: byte) \<Longrightarrow> of_nat n = c"
proof -
  assume h: "n mod 256 = unat c"
  have "(of_nat n :: byte) = of_nat (n mod 256)"
    by (simp add: word_of_nat_eq_iff take_bit_eq_mod)
  then show ?thesis using h by simp
qed

lemma byte_val:
  fixes a b c :: byte
  shows "unat a * 65536 + unat b * 256 + unat c < 16777216"
  using unat_byte[of a] unat_byte[of b] unat_byte[of c] by simp

lemma byte0:
  fixes a b c :: byte
  shows "(of_nat ((unat a * 65536 + unat b * 256 + unat c) div 65536) :: byte) = a"
proof -
  have "unat b * 256 + unat c < 65536" using unat_byte[of b] unat_byte[of c] by simp
  then have "(unat a * 65536 + unat b * 256 + unat c) div 65536 = unat a" by simp
  then show ?thesis by simp
qed

lemma byte1:
  fixes a b c :: byte
  shows "(of_nat ((unat a * 65536 + unat b * 256 + unat c) div 256) :: byte) = b"
proof -
  have "unat c < 256" by (rule unat_byte)
  then have "(unat a * 65536 + unat b * 256 + unat c) div 256 = unat a * 256 + unat b" by simp
  then have "(unat a * 65536 + unat b * 256 + unat c) div 256 mod 256 = unat b"
    using unat_byte[of b] by simp
  then show ?thesis by (rule of_nat_byte)
qed

lemma byte2:
  fixes a b c :: byte
  shows "(of_nat (unat a * 65536 + unat b * 256 + unat c) :: byte) = c"
proof -
  have e: "unat a * 65536 + unat b * 256 + unat c = (unat a * 256 + unat b) * 256 + unat c"
    by simp
  have "(unat a * 65536 + unat b * 256 + unat c) mod 256 = unat c"
    using unat_byte[of c] by (simp only: e mod_mult_self3 mod_less)
  then show ?thesis by (rule of_nat_byte)
qed

lemma decode_group3:
  fixes a b c :: byte
  defines "v \<equiv> unat a * 65536 + unat b * 256 + unat c"
  shows "decodeQuanta (enc6 (v div 262144) # enc6 (v div 4096) # enc6 (v div 64) # enc6 v # rest) =
         (case decodeQuanta rest of None \<Rightarrow> None | Some bs \<Rightarrow> Some (a # b # c # bs))"
proof -
  have q: "quantum (v div 262144 mod 64) (v div 4096 mod 64) (v div 64 mod 64) (v mod 64) = v"
    by (rule quantum_sextets) (simp add: v_def byte_val)
  have b: "(of_nat (v div 65536) :: byte) = a" "(of_nat (v div 256) :: byte) = b" "(of_nat v :: byte) = c"
    unfolding v_def by (rule byte0 byte1 byte2)+
  show ?thesis
    by (simp add: decodeMap_enc6 enc6_not_pad q b split: option.split)
qed

lemma decode_group2:
  fixes a b :: byte
  defines "v \<equiv> unat a * 65536 + unat b * 256"
  shows "decodeQuanta [enc6 (v div 262144), enc6 (v div 4096), enc6 (v div 64), padChar] = Some [a, b]"
proof -
  have v0: "v = unat a * 65536 + unat b * 256 + unat (0 :: byte)" by (simp add: v_def)
  have m: "v mod 64 = 0" unfolding v_def by simp
  have "quantum (v div 262144 mod 64) (v div 4096 mod 64) (v div 64 mod 64) (v mod 64) = v"
    by (rule quantum_sextets) (simp only: v0 byte_val)
  then have q: "quantum (v div 262144 mod 64) (v div 4096 mod 64) (v div 64 mod 64) 0 = v"
    using m by simp
  have b: "(of_nat (v div 65536) :: byte) = a" "(of_nat (v div 256) :: byte) = b"
    unfolding v0 by (rule byte0 byte1)+
  show ?thesis
    by (simp add: decodeMap_enc6 enc6_not_pad q b)
qed

lemma decode_group1:
  fixes a :: byte
  defines "v \<equiv> unat a * 65536"
  shows "decodeQuanta [enc6 (v div 262144), enc6 (v div 4096), padChar, padChar] = Some [a]"
proof -
  have v0: "v = unat a * 65536 + unat (0 :: byte) * 256 + unat (0 :: byte)" by (simp add: v_def)
  have m: "v mod 64 = 0" "v div 64 mod 64 = 0" unfolding v_def by simp_all
  have "quantum (v div 262144 mod 64) (v div 4096 mod 64) (v div 64 mod 64) (v mod 64) = v"
    by (rule quantum_sextets) (simp only: v0 byte_val)
  then have q: "quantum (v div 262144 mod 64) (v div 4096 mod 64) 0 0 = v"
    using m by simp
  have b: "(of_nat (v div 65536) :: byte) = a"
    unfolding v0 by (rule byte0)
  show ?thesis
    by (simp add: decodeMap_enc6 enc6_not_pad q b)
qed

lemma decodeQuanta_EncodeToString: "decodeQuanta (EncodeToString bs) = Some bs"
proof (induction bs rule: EncodeToString.induct)
  case (1 a b c rest)
  have "decodeQuanta (EncodeToString (a # b # c # rest)) =
        (case decodeQuanta (EncodeToString rest) of None \<Rightarrow> None
         | Some bs \<Rightarrow> Some (a # b # c # bs))"
    unfolding EncodeToString.simps Let_def by (rule decode_group3)
  then show ?case using 1 by simp
next
  case (2 a b)
  show ?case unfolding EncodeToString.simps Let_def by (rule decode_group2)
next
  case (3 a)
  show ?case unfolding EncodeToString.simps Let_def by (rule decode_group1)
next
  case 4
  show ?case by simp
qed

lemma EncodeToString_no_newline:
  "filter (\<lambda>c. c \<noteq> CHR 0x0A \<and> c \<noteq> CHR 0x0D) (EncodeToString bs) = EncodeToString bs"
  by (induction bs rule: EncodeToString.induct)
     (simp_all add: Let_def enc6_not_newline padChar_def)

lemma DecodeString_EncodeToString: "DecodeString (EncodeToString bs) = Inr bs"
  by (simp add: DecodeString_def EncodeToString_no_newline decodeQuanta_EncodeToString)

lemma DecodeString_AQID: "DecodeString ''AQID'' = Inr [1, 2, 3]"
  by (simp add: DecodeString_def decodeMap_def encodeURL_def quantum_def padChar_def)

lemma DecodeString_short: "DecodeString ''A'' = Inl CorruptInputError"
  by (simp add: DecodeString_def)

section \<open>The executor and transactions\<close>

lemmas exec_defs =
  next_fault_def backend_ok_def exec_Get_def exec_Insert_def exec_Update_def
  exec_Select_def exec_SelectOne_def exec_Delete_all_def Begin_def Commit_def Rollback_def

lemma next_fault_keeps:
  "next_fault s = (f, s') \<Longrightarrow> db_rows s' = db_rows s \<and> db_unique_err s' = db_unique_err s"
  by (auto simp: next_fault_def split: list.splits)

lemma next_fault_ok:
  "backend_ok (Suc n) s \<Longrightarrow> next_fault s = (f, s') \<Longrightarrow> f = None \<and> backend_ok n s'"
  by (auto simp: next_fault_def backend_ok_def split: list.splits)

lemma exec_Get_absent:
  assumes "backend_ok (Suc n) s" and "k \<notin> set (map key (db_rows s))"
  shows "fst (exec_Get key k s) = (None, None)"
proof -
  obtain f s' where nf: "next_fault s = (f, s')" by (cases "next_fault s")
  from next_fault_ok[OF assms(1) nf] have f: "f = None" by simp
  from next_fault_keeps[OF nf] have r: "db_rows s' = db_rows s" by simp
  have "find (\<lambda>r. key r = k) (db_rows s) = None"
    using assms(2) by (auto simp: find_None_iff)
  then show ?thesis by (simp add: exec_Get_def nf f r)
qed

lemma exec_Get_found:
  assumes "backend_ok (Suc n) s"
  shows "fst (exec_Get key k s) = (find (\<lambda>r. key r = k) (db_rows s), None)"
proof -
  obtain f s' where nf: "next_fault s = (f, s')" by (cases "next_fault s")
  from next_fault_ok[OF assms(1) nf] have f: "f = None" by simp
  from next_fault_keeps[OF nf] have r: "db_rows s' = db_rows s" by simp
  show ?thesis by (simp add: exec_Get_def nf f r)
qed

lemma exec_Get_result:
  "exec_Get key k s = ((m, err), s') \<Longrightarrow>
     db_rows s' = db_rows s \<and>
     (m = None \<or> (err = None \<and> m = find (\<lambda>r. key r = k) (db_rows s)))"
  by (auto simp: exec_Get_def split: prod.splits option.splits dest: next_fault_keeps)

lemma exec_Insert_success:
  "exec_Insert key r s = (None, s') \<Longrightarrow>
     db_rows s' = db_rows s @ [r] \<and> key r \<notin> set (map key (db_rows s)) \<and>
     db_unique_err s' = db_unique_err s"
  by (auto simp: exec_Insert_def split: prod.splits option.splits if_splits
           dest: next_fault_keeps)

lemma exec_Insert_error:
  "exec_Insert key r s = (Some e, s') \<Longrightarrow>
     db_rows s' = db_rows s \<and> db_unique_err s' = db_unique_err s"
  by (auto simp: exec_Insert_def split: prod.splits option.splits if_splits
           dest: next_fault_keeps)

lemma exec_Insert_present:
  assumes "key r \<in> set (map key (db_rows s))"
  shows "\<exists>e s'. exec_Insert key r s = (Some e, s') \<and>
           (backend_ok (Suc n) s \<longrightarrow> e = db_unique_err s)"
proof -
  obtain f s1 where nf: "next_fault s = (f, s1)" by (cases "next_fault s")
  note k = next_fault_keeps[OF nf]
  show ?thesis
  proof (cases f)
    case None
    with nf k assms show ?thesis by (simp add: exec_Insert_def)
  next
    case (Some e)
    with nf have "\<not> backend_ok (Suc n) s" using next_fault_ok[of n s f s1] by auto
    with Some nf show ?thesis by (simp add: exec_Insert_def)
  qed
qed

lemma exec_Insert_list_success:
  "exec_Insert_list key rs s = (None, s') \<Longrightarrow> db_rows s' = db_rows s @ rs"
proof (induction rs arbitrary: s)
  case Nil then show ?case by simp
next
  case (Cons r rs)
  obtain x s1 where i: "exec_Insert key r s = (x, s1)" by (cases "exec_Insert key r s")
  with Cons.prems have x: "x = None" by (cases x) auto
  with i Cons.prems have "exec_Insert_list key rs s1 = (None, s')" by simp
  from Cons.IH[OF this] exec_Insert_success[OF i[unfolded x]] show ?case by simp
qed

lemma exec_Delete_all_success:
  "exec_Delete_all s = (None, s') \<Longrightarrow> db_rows s' = []"
  by (auto simp: exec_Delete_all_def split: prod.splits option.splits)

lemma exec_Select_ok:
  "backend_ok (Suc n) s \<Longrightarrow> fst (exec_Select s) = Inr (db_rows s)"
proof -
  assume ok: "backend_ok (Suc n) s"
  obtain f s' where nf: "next_fault s = (f, s')" by (cases "next_fault s")
  from next_fault_ok[OF ok nf] have f: "f = None" by simp
  from next_fault_keeps[OF nf] have r: "db_rows s' = db_rows s" by simp
  show ?thesis by (simp add: exec_Select_def nf f r)
qed

lemma Begin_result:
  "Begin s = (Inr t, s1) \<Longrightarrow>
     tx_undo t = db_rows s \<and> \<not> tx_done t \<and> db_rows s1 = db_rows s \<and>
     db_unique_err s1 = db_unique_err s"
  by (auto simp: Begin_def split: prod.splits option.splits dest: next_fault_keeps)

lemma Begin_error:
  "Begin s = (Inl e, s1) \<Longrightarrow> db_rows s1 = db_rows s"
  by (auto simp: Begin_def split: prod.splits option.splits dest: next_fault_keeps)

lemma Begin_ok:
  "backend_ok (Suc n) s \<Longrightarrow> \<exists>t s1. Begin s = (Inr t, s1) \<and> backend_ok n s1"
  by (cases "next_fault s") (auto simp: Begin_def dest: next_fault_ok)

lemma Rollback_open: "\<not> tx_done t \<Longrightarrow> db_rows (Rollback t s) = tx_undo t"
  by (simp add: Rollback_def)

lemma Commit_error:
  "\<not> tx_done t \<Longrightarrow> Commit t s = (Some e, t', s') \<Longrightarrow> db_rows (Rollback t' s') = tx_undo t"
  by (auto simp: Commit_def Rollback_def split: prod.splits option.splits)

lemma Commit_success:
  "Commit t s = (None, t', s') \<Longrightarrow> db_rows (Rollback t' s') = db_rows s"
  by (auto simp: Commit_def Rollback_def split: prod.splits option.splits if_splits
           dest: next_fault_keeps)

lemma find_append_new:
  "k \<notin> set (map key xs) \<Longrightarrow> key r = k \<Longrightarrow> find (\<lambda>x. key x = k) (xs @ [r]) = Some r"
  by (induction xs) auto

lemma filter_append_new:
  "k \<notin> set (map key xs) \<Longrightarrow> key r = k \<Longrightarrow> filter (\<lambda>x. key x = k) (xs @ [r]) = [r]"
  by (induction xs) auto

section \<open>Creating a client\<close>

lemma newClientModel_ID: "newClientModel bc js cli = Inr cim \<Longrightarrow> cm_ID cim = ID (Credentials cli)"
  by (auto simp: newClientModel_def split: sum.splits)

lemma newClientModel_encoded:
  "newClientModel bc js (cli\<lparr>Credentials := (Credentials cli)\<lparr>Secret := EncodeToString secret\<rparr>\<rparr>) =
     (case GenerateFromPassword bc secret bcryptHashCost of
        Inl err \<Rightarrow> Inl err
      | Inr hashed \<Rightarrow>
          (case Marshal js (Metadata cli) of
             Inl err \<Rightarrow> Inl err
           | Inr bmeta \<Rightarrow>
               Inr \<lparr>cm_ID = ID (Credentials cli), cm_Secret = hashed,
                    cm_Metadata = bmeta, cm_DexAdmin = Admin cli\<rparr>))"
  by (simp add: newClientModel_def DecodeString_EncodeToString split: sum.split)

text \<open>
  What a successful \<open>New\<close> has done: it drew a secret from the generator, hashed it,
  appended one row under an identifier that was not in the table, and returned the
  encoded secret.
\<close>

lemma New_success:
  assumes "New r bc js ck cli s = (Inr creds, s')"
  shows "\<exists>secret hashed bmeta.
           secretGenerator r () = Inr secret \<and>
           GenerateFromPassword bc secret bcryptHashCost = Inr hashed \<and>
           Marshal js (Metadata cli) = Inr bmeta \<and>
           creds = \<lparr>ID = ID (Credentials cli), Secret = EncodeToString secret\<rparr> \<and>
           ID (Credentials cli) \<notin> set (map cm_ID (db_rows s)) \<and>
           db_rows s' = db_rows s @
             [\<lparr>cm_ID = ID (Credentials cli), cm_Secret = hashed,
               cm_Metadata = bmeta, cm_DexAdmin = Admin cli\<rparr>]"
proof -
  from assms obtain secret where g: "secretGenerator r () = Inr secret"
    by (auto simp: New_def split: sum.splits)
  let ?cli = "cli\<lparr>Credentials := (Credentials cli)\<lparr>Secret := EncodeToString secret\<rparr>\<rparr>"
  from assms g obtain cim where m: "newClientModel bc js ?cli = Inr cim"
    by (auto simp: New_def Let_def split: sum.splits)
  from m obtain hashed bmeta where
    h: "GenerateFromPassword bc secret bcryptHashCost = Inr hashed" and
    b: "Marshal js (Metadata cli) = Inr bmeta" and
    c: "cim = \<lparr>cm_ID = ID (Credentials cli), cm_Secret = hashed,
               cm_Metadata = bmeta, cm_DexAdmin = Admin cli\<rparr>"
    unfolding newClientModel_encoded by (auto split: sum.splits)
  from assms g m have i: "exec_Insert cm_ID cim s = (None, s')"
    and cr: "creds = \<lparr>ID = ID (Credentials cli), Secret = EncodeToString secret\<rparr>"
    by (auto simp: New_def Let_def split: prod.splits option.splits)
  from exec_Insert_success[OF i] c
  have "db_rows s' = db_rows s @ [cim]" "ID (Credentials cli) \<notin> set (map cm_ID (db_rows s))"
    by simp_all
  with g h b c cr show ?thesis by blast
qed

lemma New_error_keeps:
  "New r bc js ck cli s = (Inl e, s') \<Longrightarrow> db_rows s' = db_rows s"
  by (auto simp: New_def Let_def split: sum.splits prod.splits option.splits
           dest: exec_Insert_error)

lemma newClientRepo_bounded:
  assumes "\<forall>n bs. RandBytes n = Inr bs \<longrightarrow> length bs = n"
  shows "\<forall>secret. secretGenerator (newClientRepo RandBytes) () = Inr secret
           \<longrightarrow> length secret \<le> maxSecretLength"
  using assms by (simp add: newClientRepo_def DefaultSecretGenerator_def)

lemma example_New:
  "New (newClientRepo example_RandBytes) example_bcrypt example_json example_checkers
       example_client (example_db []) =
   (Inr \<lparr>ID = ''app'', Secret = EncodeToString (map of_nat [0..<maxSecretLength])\<rparr>,
    example_db [\<lparr>cm_ID = ''app'', cm_Secret = take 72 (map of_nat [0..<maxSecretLength]),
                 cm_Metadata = ''{}'', cm_DexAdmin = False\<rparr>])"
  by (simp add: New_def newClientRepo_def DefaultSecretGenerator_def newClientModel_def
        DecodeString_EncodeToString example_bcrypt_def example_json_def example_RandBytes_def
        example_db_def example_client_def exec_Insert_def next_fault_def)

text \<open>
  The metadata column holds exactly the text that \<open>Marshal\<close> produced, and
  \<open>Client_of\<close> hands exactly that text to \<open>Unmarshal\<close>: what a client read back from
  its row carries as metadata is decided by the JSON coding alone.
\<close>

lemma Client_of_newClientModel:
  assumes "newClientModel bc js cli = Inr cim"
  shows "Marshal js (Metadata cli) = Inr (cm_Metadata cim)"
    and "Client_of js cim =
           (case Unmarshal js (cm_Metadata cim) of
              Inl err \<Rightarrow> Inl err
            | Inr meta \<Rightarrow>
                Inr \<lparr>Credentials = \<lparr>ID = ID (Credentials cli), Secret = []\<rparr>,
                     Metadata = meta, Admin = Admin cli\<rparr>)"
proof -
  from assms obtain hashed bmeta where
    b: "Marshal js (Metadata cli) = Inr bmeta" and
    c: "cim = \<lparr>cm_ID = ID (Credentials cli), cm_Secret = hashed,
               cm_Metadata = bmeta, cm_DexAdmin = Admin cli\<rparr>"
    by (auto simp: newClientModel_def split: sum.splits)
  show "Marshal js (Metadata cli) = Inr (cm_Metadata cim)" using b c by simp
  show "Client_of js cim =
           (case Unmarshal js (cm_Metadata cim) of
              Inl err \<Rightarrow> Inl err
            | Inr meta \<Rightarrow>
                Inr \<lparr>Credentials = \<lparr>ID = ID (Credentials cli), Secret = []\<rparr>,
                     Metadata = meta, Admin = Admin cli\<rparr>)"
    by (simp add: Client_of_def c split: sum.split)
qed

subsection \<open>Create, then authenticate\<close>

text \<open>
  Claim C1. A client created by \<open>New\<close> authenticates with the credentials that \<open>New\<close>
  returned: the generated secret, base64-URL-encoded and handed to the caller, verifies
  against the hash that was stored. \<open>New\<close> never reads the secret field of its argument,
  so this holds for every client, with an empty secret field or not. What is assumed of
  the parts outside the repository: the secret generator returns at most
  \<open>maxSecretLength\<close> bytes (the default generator asks \<^verbatim>\<open>RandBytes\<close> for exactly that
  many, see \<open>newClientRepo_bounded\<close>), bcrypt accepts a password against the hash it
  generated from it, and the backend answers the lookup.
\<close>

theorem New_then_Authenticate:
  assumes gen: "\<forall>secret. secretGenerator r () = Inr secret \<longrightarrow> length secret \<le> maxSecretLength"
    and bcrypt: "\<forall>password hashed. GenerateFromPassword bc password bcryptHashCost = Inr hashed
                   \<longrightarrow> CompareHashAndPassword bc hashed password = None"
    and new: "New r bc js ck cli s = (Inr creds, s')"
    and ok: "backend_ok 1 s'"
  shows "fst (Authenticate bc creds s') = (True, None)"
proof -
  from New_success[OF new] obtain secret hashed bmeta where
    g: "secretGenerator r () = Inr secret" and
    h: "GenerateFromPassword bc secret bcryptHashCost = Inr hashed" and
    cr: "creds = \<lparr>ID = ID (Credentials cli), Secret = EncodeToString secret\<rparr>" and
    fresh: "ID (Credentials cli) \<notin> set (map cm_ID (db_rows s))" and
    rows: "db_rows s' = db_rows s @
             [\<lparr>cm_ID = ID (Credentials cli), cm_Secret = hashed,
               cm_Metadata = bmeta, cm_DexAdmin = Admin cli\<rparr>]"
    by blast
  let ?cim = "\<lparr>cm_ID = ID (Credentials cli), cm_Secret = hashed,
               cm_Metadata = bmeta, cm_DexAdmin = Admin cli\<rparr>"
  have f: "find (\<lambda>x. cm_ID x = ID creds) (db_rows s') = Some ?cim"
    unfolding rows using fresh by (simp add: cr find_append_new)
  from ok have ok': "backend_ok (Suc 0) s'" by simp
  obtain m err s'' where get: "exec_Get cm_ID (ID creds) s' = ((m, err), s'')"
    by (cases "exec_Get cm_ID (ID creds) s'") auto
  from exec_Get_found[OF ok', of cm_ID "ID creds"] get f
  have m: "m = Some ?cim" and err: "err = None" by simp_all
  have d: "DecodeString (Secret creds) = Inr secret"
    by (simp add: cr DecodeString_EncodeToString)
  from gen g have len: "\<not> length secret > maxSecretLength" by auto
  from bcrypt h have cmp: "CompareHashAndPassword bc hashed secret = None" by blast
  show ?thesis
    by (simp add: Authenticate_def get m err d len cmp)
qed

text \<open>
  The default repository on the empty table, with the concrete instances: every
  hypothesis holds there.
\<close>

theorem New_then_Authenticate_witness:
  "fst (Authenticate example_bcrypt
          \<lparr>ID = ''app'', Secret = EncodeToString (map of_nat [0..<maxSecretLength])\<rparr>
          (example_db [\<lparr>cm_ID = ''app'', cm_Secret = take 72 (map of_nat [0..<maxSecretLength]),
                        cm_Metadata = ''{}'', cm_DexAdmin = False\<rparr>])) = (True, None)"
proof -
  have gen: "\<forall>secret. secretGenerator (newClientRepo example_RandBytes) () = Inr secret
               \<longrightarrow> length secret \<le> maxSecretLength"
    by (rule newClientRepo_bounded) (auto simp: example_RandBytes_def)
  have bc: "\<forall>password hashed.
              GenerateFromPassword example_bcrypt password bcryptHashCost = Inr hashed
              \<longrightarrow> CompareHashAndPassword example_bcrypt hashed password = None"
    by (simp add: example_bcrypt_def)
  have ok: "backend_ok 1 (example_db [\<lparr>cm_ID = ''app'',
              cm_Secret = take 72 (map of_nat [0..<maxSecretLength]),
              cm_Metadata = ''{}'', cm_DexAdmin = False\<rparr>])"
    by (simp add: backend_ok_def example_db_def)
  show ?thesis by (rule New_then_Authenticate[OF gen bc example_New ok])
qed

subsection \<open>A secret supplied by the caller\<close>

text \<open>
  Claim C3, as amended. \<open>New\<close> ignores a secret supplied by the caller: its result does
  not depend on the secret field of the client it is given. The secret that is hashed
  and stored, and whose encoding is returned in the credentials, is the one drawn from
  the repository's secret generator.
\<close>

theorem New_ignores_supplied_secret:
  "New r bc js ck (cli\<lparr>Credentials := (Credentials cli)\<lparr>Secret := supplied\<rparr>\<rparr>) s =
     New r bc js ck cli s \<and>
   (New r bc js ck cli s = (Inr creds, s') \<longrightarrow>
     (\<exists>secret hashed bmeta.
        secretGenerator r () = Inr secret \<and>
        GenerateFromPassword bc secret bcryptHashCost = Inr hashed \<and>
        Marshal js (Metadata cli) = Inr bmeta \<and>
        creds = \<lparr>ID = ID (Credentials cli), Secret = EncodeToString secret\<rparr> \<and>
        db_rows s' = db_rows s @
          [\<lparr>cm_ID = ID (Credentials cli), cm_Secret = hashed,
            cm_Metadata = bmeta, cm_DexAdmin = Admin cli\<rparr>]))"
proof (intro conjI impI)
  show "New r bc js ck (cli\<lparr>Credentials := (Credentials cli)\<lparr>Secret := supplied\<rparr>\<rparr>) s =
     New r bc js ck cli s"
    by (cases "secretGenerator r ()") (simp_all add: New_def)
next
  assume "New r bc js ck cli s = (Inr creds, s')"
  from New_success[OF this] show "\<exists>secret hashed bmeta.
        secretGenerator r () = Inr secret \<and>
        GenerateFromPassword bc secret bcryptHashCost = Inr hashed \<and>
        Marshal js (Metadata cli) = Inr bmeta \<and>
        creds = \<lparr>ID = ID (Credentials cli), Secret = EncodeToString secret\<rparr> \<and>
        db_rows s' = db_rows s @
          [\<lparr>cm_ID = ID (Credentials cli), cm_Secret = hashed,
            cm_Metadata = bmeta, cm_DexAdmin = Admin cli\<rparr>]"
    by blast
qed

theorem New_ignores_supplied_secret_witness:
  "New (newClientRepo example_RandBytes) example_bcrypt example_json example_checkers
       (example_client\<lparr>Credentials := (Credentials example_client)\<lparr>Secret := ''c2VjcmV0''\<rparr>\<rparr>)
       (example_db []) =
   New (newClientRepo example_RandBytes) example_bcrypt example_json example_checkers
       example_client (example_db []) \<and>
   (\<exists>secret hashed bmeta.
      secretGenerator (newClientRepo example_RandBytes) () = Inr secret \<and>
      GenerateFromPassword example_bcrypt secret bcryptHashCost = Inr hashed \<and>
      Marshal example_json (Metadata example_client) = Inr bmeta \<and>
      \<lparr>ID = ''app'', Secret = EncodeToString (map of_nat [0..<maxSecretLength])\<rparr> =
        \<lparr>ID = ID (Credentials example_client), Secret = EncodeToString secret\<rparr> \<and>
      db_rows (example_db [\<lparr>cm_ID = ''app'',
                 cm_Secret = take 72 (map of_nat [0..<maxSecretLength]),
                 cm_Metadata = ''{}'', cm_DexAdmin = False\<rparr>]) =
        db_rows (example_db []) @
          [\<lparr>cm_ID = ID (Credentials example_client), cm_Secret = hashed,
            cm_Metadata = bmeta, cm_DexAdmin = Admin example_client\<rparr>])"
  using New_ignores_supplied_secret[where r = "newClientRepo example_RandBytes"
      and bc = example_bcrypt and js = example_json and ck = example_checkers
      and cli = example_client and supplied = "''c2VjcmV0''" and s = "example_db []"
      and creds = "\<lparr>ID = ''app'', Secret = EncodeToString (map of_nat [0..<maxSecretLength])\<rparr>"
      and s' = "example_db [\<lparr>cm_ID = ''app'',
                    cm_Secret = take 72 (map of_nat [0..<maxSecretLength]),
                    cm_Metadata = ''{}'', cm_DexAdmin = False\<rparr>]"]
    example_New
  by blast

text \<open>
  The claim as first stated fails: a client arrives with the secret \<^verbatim>\<open>c2VjcmV0\<close> (the
  bytes of "secret"), the generator yields the bytes 1, 2, 3. The credentials returned
  carry \<^verbatim>\<open>AQID\<close>, the encoding of the generated bytes, and the stored hash is that of
  the generated bytes, not of the supplied ones.
\<close>

theorem New_supplied_secret_counterexample:
  "New (NewClientRepoWithSecretGenerator example_RandBytes example_fixed_generator)
       example_bcrypt example_json example_checkers
       \<lparr>Credentials = \<lparr>ID = ''app'', Secret = ''c2VjcmV0''\<rparr>, Metadata = ''{}'', Admin = False\<rparr>
       (example_db []) =
   (Inr \<lparr>ID = ''app'', Secret = ''AQID''\<rparr>,
    example_db [\<lparr>cm_ID = ''app'', cm_Secret = [1, 2, 3], cm_Metadata = ''{}'',
                 cm_DexAdmin = False\<rparr>]) \<and>
   ''AQID'' \<noteq> ''c2VjcmV0'' \<and>
   GenerateFromPassword example_bcrypt [115, 101, 99, 114, 101, 116] bcryptHashCost \<noteq> Inr [1, 2, 3] \<and>
   DecodeString ''c2VjcmV0'' = Inr [115, 101, 99, 114, 101, 116]"
proof -
  have enc: "EncodeToString [1, 2, 3] = ''AQID''"
    by (simp add: enc6_def encodeURL_def)
  have dec: "DecodeString ''c2VjcmV0'' = Inr [115, 101, 99, 114, 101, 116]"
    by (simp add: DecodeString_def decodeMap_def encodeURL_def quantum_def padChar_def)
  have new: "New (NewClientRepoWithSecretGenerator example_RandBytes example_fixed_generator)
       example_bcrypt example_json example_checkers
       \<lparr>Credentials = \<lparr>ID = ''app'', Secret = ''c2VjcmV0''\<rparr>, Metadata = ''{}'', Admin = False\<rparr>
       (example_db []) =
   (Inr \<lparr>ID = ''app'', Secret = ''AQID''\<rparr>,
    example_db [\<lparr>cm_ID = ''app'', cm_Secret = [1, 2, 3], cm_Metadata = ''{}'',
                 cm_DexAdmin = False\<rparr>])"
    by (simp add: New_def NewClientRepoWithSecretGenerator_def newClientRepo_def
          newClientModel_def enc DecodeString_AQID example_bcrypt_def
          example_fixed_generator_def example_json_def
          example_db_def exec_Insert_def next_fault_def Let_def
          del: EncodeToString.simps)
  from new dec show ?thesis by (simp add: example_bcrypt_def)
qed

subsection \<open>Creating the same identifier twice\<close>

text \<open>
  Claim C5. The table holds one row per identifier. After a successful \<open>New\<close>, a second
  \<open>New\<close> for the same identifier, whatever its payload, repository, hash or checkers,
  fails and leaves the rows as they were; the table then holds exactly one row for that
  identifier, the one the first call wrote. When the second call gets as far as the
  insert (its generator, hash and JSON coding succeed and the backend answers) and a
  registered checker recognises the driver's uniqueness error, the error returned is
  "client ID already exists". Identifiers that were distinct before the first call are
  distinct after the second.
\<close>

theorem New_twice_fails:
  assumes first: "New r1 bc1 js1 ck1 cli1 s0 = (Inr creds1, s1)"
    and same: "ID (Credentials cli2) = ID (Credentials cli1)"
  shows "(\<exists>e. fst (New r2 bc2 js2 ck2 cli2 s1) = Inl e) \<and>
         db_rows (snd (New r2 bc2 js2 ck2 cli2 s1)) = db_rows s1 \<and>
         (\<exists>secret cim.
            secretGenerator r1 () = Inr secret \<and>
            newClientModel bc1 js1
              (cli1\<lparr>Credentials := (Credentials cli1)\<lparr>Secret := EncodeToString secret\<rparr>\<rparr>) = Inr cim \<and>
            filter (\<lambda>m. cm_ID m = ID (Credentials cli1))
              (db_rows (snd (New r2 bc2 js2 ck2 cli2 s1))) = [cim]) \<and>
         ((\<exists>secret hashed bmeta.
             secretGenerator r2 () = Inr secret \<and>
             GenerateFromPassword bc2 secret bcryptHashCost = Inr hashed \<and>
             Marshal js2 (Metadata cli2) = Inr bmeta) \<and>
          backend_ok 1 s1 \<and> isAlreadyExistsErr ck2 (db_unique_err s1)
          \<longrightarrow> fst (New r2 bc2 js2 ck2 cli2 s1) = Inl (ErrorsNew ''client ID already exists'')) \<and>
         (distinct (map cm_ID (db_rows s0))
          \<longrightarrow> distinct (map cm_ID (db_rows (snd (New r2 bc2 js2 ck2 cli2 s1)))))"
proof -
  from New_success[OF first] obtain secret hashed bmeta where
    g: "secretGenerator r1 () = Inr secret" and
    h: "GenerateFromPassword bc1 secret bcryptHashCost = Inr hashed" and
    b: "Marshal js1 (Metadata cli1) = Inr bmeta" and
    fresh: "ID (Credentials cli1) \<notin> set (map cm_ID (db_rows s0))" and
    rows: "db_rows s1 = db_rows s0 @
             [\<lparr>cm_ID = ID (Credentials cli1), cm_Secret = hashed,
               cm_Metadata = bmeta, cm_DexAdmin = Admin cli1\<rparr>]"
    by blast
  let ?cim = "\<lparr>cm_ID = ID (Credentials cli1), cm_Secret = hashed,
               cm_Metadata = bmeta, cm_DexAdmin = Admin cli1\<rparr>"
  let ?second = "New r2 bc2 js2 ck2 cli2 s1"
  have model1: "newClientModel bc1 js1
      (cli1\<lparr>Credentials := (Credentials cli1)\<lparr>Secret := EncodeToString secret\<rparr>\<rparr>) = Inr ?cim"
    by (simp add: newClientModel_encoded h b)
  have present: "ID (Credentials cli2) \<in> set (map cm_ID (db_rows s1))"
    by (simp add: rows same)
  have fails: "\<exists>e. fst ?second = Inl e"
  proof (cases "fst ?second")
    case (Inl e) then show ?thesis by blast
  next
    case (Inr creds2)
    then have "?second = (Inr creds2, snd ?second)" by (metis prod.collapse)
    from New_success[OF this] present show ?thesis by blast
  qed
  then obtain e where e: "?second = (Inl e, snd ?second)" by (metis prod.collapse)
  have keep: "db_rows (snd ?second) = db_rows s1" by (rule New_error_keeps[OF e])
  have one: "filter (\<lambda>m. cm_ID m = ID (Credentials cli1)) (db_rows (snd ?second)) = [?cim]"
    unfolding keep rows
    using filter_append_new[of "ID (Credentials cli1)" cm_ID "db_rows s0" ?cim] fresh by simp
  have exists: "(\<exists>secret hashed bmeta.
             secretGenerator r2 () = Inr secret \<and>
             GenerateFromPassword bc2 secret bcryptHashCost = Inr hashed \<and>
             Marshal js2 (Metadata cli2) = Inr bmeta) \<and>
          backend_ok 1 s1 \<and> isAlreadyExistsErr ck2 (db_unique_err s1)
          \<longrightarrow> fst ?second = Inl (ErrorsNew ''client ID already exists'')"
  proof
    assume a: "(\<exists>secret hashed bmeta.
             secretGenerator r2 () = Inr secret \<and>
             GenerateFromPassword bc2 secret bcryptHashCost = Inr hashed \<and>
             Marshal js2 (Metadata cli2) = Inr bmeta) \<and>
          backend_ok 1 s1 \<and> isAlreadyExistsErr ck2 (db_unique_err s1)"
    then obtain secret2 hashed2 bmeta2 where
      g2: "secretGenerator r2 () = Inr secret2" and
      h2: "GenerateFromPassword bc2 secret2 bcryptHashCost = Inr hashed2" and
      b2: "Marshal js2 (Metadata cli2) = Inr bmeta2" by blast
    let ?cim2 = "\<lparr>cm_ID = ID (Credentials cli2), cm_Secret = hashed2,
                  cm_Metadata = bmeta2, cm_DexAdmin = Admin cli2\<rparr>"
    have m2: "newClientModel bc2 js2
        (cli2\<lparr>Credentials := (Credentials cli2)\<lparr>Secret := EncodeToString secret2\<rparr>\<rparr>) = Inr ?cim2"
      by (simp add: newClientModel_encoded h2 b2)
    from a have ok: "backend_ok (Suc 0) s1" by simp
    have "cm_ID ?cim2 \<in> set (map cm_ID (db_rows s1))" using present by simp
    from exec_Insert_present[OF this, of 0] ok obtain s2 where
      "exec_Insert cm_ID ?cim2 s1 = (Some (db_unique_err s1), s2)" by auto
    with a show "fst ?second = Inl (ErrorsNew ''client ID already exists'')"
      by (simp add: New_def g2 m2 Let_def)
  qed
  have inv: "distinct (map cm_ID (db_rows s0)) \<longrightarrow> distinct (map cm_ID (db_rows (snd ?second)))"
    unfolding keep rows using fresh by simp
  from fails keep g model1 one exists inv show ?thesis by blast
qed

theorem New_twice_fails_witness:
  "fst (New (newClientRepo example_RandBytes) example_bcrypt example_json example_checkers
          \<lparr>Credentials = \<lparr>ID = ''app'', Secret = ''c2VjcmV0''\<rparr>, Metadata = ''other'', Admin = True\<rparr>
          (example_db [\<lparr>cm_ID = ''app'', cm_Secret = take 72 (map of_nat [0..<maxSecretLength]),
                        cm_Metadata = ''{}'', cm_DexAdmin = False\<rparr>]))
     = Inl (ErrorsNew ''client ID already exists'') \<and>
   db_rows (snd (New (newClientRepo example_RandBytes) example_bcrypt example_json example_checkers
          \<lparr>Credentials = \<lparr>ID = ''app'', Secret = ''c2VjcmV0''\<rparr>, Metadata = ''other'', Admin = True\<rparr>
          (example_db [\<lparr>cm_ID = ''app'', cm_Secret = take 72 (map of_nat [0..<maxSecretLength]),
                        cm_Metadata = ''{}'', cm_DexAdmin = False\<rparr>])))
     = [\<lparr>cm_ID = ''app'', cm_Secret = take 72 (map of_nat [0..<maxSecretLength]),
         cm_Metadata = ''{}'', cm_DexAdmin = False\<rparr>]"
proof -
  let ?row = "\<lparr>cm_ID = ''app'', cm_Secret = take 72 (map of_nat [0..<maxSecretLength]),
               cm_Metadata = ''{}'', cm_DexAdmin = False\<rparr>"
  let ?cli2 = "\<lparr>Credentials = \<lparr>ID = ''app'', Secret = ''c2VjcmV0''\<rparr>, Metadata = ''other'',
                Admin = True\<rparr>"
  have same: "ID (Credentials ?cli2) = ID (Credentials example_client)"
    by (simp add: example_client_def)
  have gen: "\<exists>secret hashed bmeta.
      secretGenerator (newClientRepo example_RandBytes) () = Inr secret \<and>
      GenerateFromPassword example_bcrypt secret bcryptHashCost = Inr hashed \<and>
      Marshal example_json (Metadata ?cli2) = Inr bmeta"
    by (simp add: newClientRepo_def DefaultSecretGenerator_def example_RandBytes_def
          example_bcrypt_def example_json_def)
  have ok: "backend_ok 1 (example_db [?row])" by (simp add: backend_ok_def example_db_def)
  have chk: "isAlreadyExistsErr example_checkers (db_unique_err (example_db [?row]))"
    by (simp add: example_checkers_def registerAlreadyExistsChecker_def example_db_def)
  from New_twice_fails[OF example_New same, of "newClientRepo example_RandBytes" example_bcrypt
      example_json example_checkers] gen ok chk
  show ?thesis by (simp add: example_db_def)
qed

section \<open>Authentication\<close>

text \<open>
  Claim C4. When the backend answers the lookup, \<open>Authenticate\<close> returns false and no
  error if the identifier is absent, if the presented secret is not valid base64, or if
  the decoded secret is longer than 72 bytes. When the row is found, the secret decodes
  and is at most 72 bytes long, the result is that of the bcrypt comparison, with no
  error. And in every case, a backend fault included, a result of true comes with no
  error and from a comparison that succeeded on a found row with a decoded secret of at
  most 72 bytes.
\<close>

theorem Authenticate_false_paths:
  "(backend_ok 1 s \<and>
      (ID creds \<notin> set (map cm_ID (db_rows s)) \<or>
       (\<exists>e. DecodeString (Secret creds) = Inl e) \<or>
       (\<exists>dec. DecodeString (Secret creds) = Inr dec \<and> length dec > 72))
    \<longrightarrow> fst (Authenticate bc creds s) = (False, None)) \<and>
   (backend_ok 1 s \<and>
      find (\<lambda>r. cm_ID r = ID creds) (db_rows s) = Some cim \<and>
      DecodeString (Secret creds) = Inr dec \<and> length dec \<le> 72
    \<longrightarrow> fst (Authenticate bc creds s) =
          (CompareHashAndPassword bc (cm_Secret cim) dec = None, None)) \<and>
   (fst (fst (Authenticate bc creds s))
    \<longrightarrow> snd (fst (Authenticate bc creds s)) = None \<and>
        (\<exists>row dec'. find (\<lambda>r. cm_ID r = ID creds) (db_rows s) = Some row \<and>
           DecodeString (Secret creds) = Inr dec' \<and> length dec' \<le> 72 \<and>
           CompareHashAndPassword bc (cm_Secret row) dec' = None))"
proof (intro conjI impI)
  assume h: "backend_ok 1 s \<and>
      (ID creds \<notin> set (map cm_ID (db_rows s)) \<or>
       (\<exists>e. DecodeString (Secret creds) = Inl e) \<or>
       (\<exists>dec. DecodeString (Secret creds) = Inr dec \<and> length dec > 72))"
  then have ok: "backend_ok (Suc 0) s" by simp
  obtain m err s' where g: "exec_Get cm_ID (ID creds) s = ((m, err), s')"
    by (cases "exec_Get cm_ID (ID creds) s") auto
  from exec_Get_found[OF ok, of cm_ID "ID creds"] g
  have m: "m = find (\<lambda>r. cm_ID r = ID creds) (db_rows s)" and err: "err = None" by simp_all
  from h consider
      (absent) "ID creds \<notin> set (map cm_ID (db_rows s))"
    | (corrupt) e where "DecodeString (Secret creds) = Inl e"
    | (long) d where "DecodeString (Secret creds) = Inr d" "length d > 72"
    by blast
  then show "fst (Authenticate bc creds s) = (False, None)"
  proof cases
    case absent
    from exec_Get_absent[OF ok absent] g have "m = None" by simp
    then show ?thesis by (simp add: Authenticate_def g err)
  next
    case corrupt
    then show ?thesis
      by (simp add: Authenticate_def g err split: option.split)
  next
    case long
    then show ?thesis
      by (simp add: Authenticate_def g err maxSecretLength_def split: option.split)
  qed
next
  assume h: "backend_ok 1 s \<and>
      find (\<lambda>r. cm_ID r = ID creds) (db_rows s) = Some cim \<and>
      DecodeString (Secret creds) = Inr dec \<and> length dec \<le> 72"
  then have ok: "backend_ok (Suc 0) s" by simp
  obtain m err s' where g: "exec_Get cm_ID (ID creds) s = ((m, err), s')"
    by (cases "exec_Get cm_ID (ID creds) s") auto
  from exec_Get_found[OF ok, of cm_ID "ID creds"] g h
  have "m = Some cim" "err = None" by simp_all
  with h show "fst (Authenticate bc creds s) =
          (CompareHashAndPassword bc (cm_Secret cim) dec = None, None)"
    by (simp add: Authenticate_def g maxSecretLength_def)
next
  assume t: "fst (fst (Authenticate bc creds s))"
  obtain m err s' where g: "exec_Get cm_ID (ID creds) s = ((m, err), s')"
    by (cases "exec_Get cm_ID (ID creds) s") auto
  from exec_Get_result[OF g]
  have r: "m = None \<or> (err = None \<and> m = find (\<lambda>r. cm_ID r = ID creds) (db_rows s))"
    by simp
  from t show "snd (fst (Authenticate bc creds s)) = None"
    by (auto simp: Authenticate_def g split: option.splits if_splits sum.splits)
  show "\<exists>row dec'. find (\<lambda>r. cm_ID r = ID creds) (db_rows s) = Some row \<and>
           DecodeString (Secret creds) = Inr dec' \<and> length dec' \<le> 72 \<and>
           CompareHashAndPassword bc (cm_Secret row) dec' = None"
  proof (cases m)
    case None
    with t show ?thesis by (simp add: Authenticate_def g)
  next
    case (Some row)
    with r have err: "err = None"
      and f: "find (\<lambda>r. cm_ID r = ID creds) (db_rows s) = Some row" by simp_all
    show ?thesis
    proof (cases "DecodeString (Secret creds)")
      case (Inl e)
      with t Some err show ?thesis by (simp add: Authenticate_def g)
    next
      case (Inr d)
      with t Some err have "length d \<le> 72 \<and> CompareHashAndPassword bc (cm_Secret row) d = None"
        by (simp add: Authenticate_def g maxSecretLength_def split: if_splits)
      with f Inr show ?thesis by blast
    qed
  qed
qed

text \<open>
  One instance per path: an absent identifier, a secret that does not decode, a
  secret of 73 bytes, and the matching secret.
\<close>

theorem Authenticate_false_paths_witness:
  "fst (Authenticate example_bcrypt \<lparr>ID = ''ghost'', Secret = ''AQID''\<rparr> (example_db [example_row]))
     = (False, None) \<and>
   fst (Authenticate example_bcrypt \<lparr>ID = ''app'', Secret = ''A''\<rparr> (example_db [example_row]))
     = (False, None) \<and>
   fst (Authenticate example_bcrypt \<lparr>ID = ''app'', Secret = EncodeToString (replicate 73 0)\<rparr>
          (example_db [example_row]))
     = (False, None) \<and>
   fst (Authenticate example_bcrypt \<lparr>ID = ''app'', Secret = ''AQID''\<rparr> (example_db [example_row]))
     = (True, None)"
proof -
  let ?s = "example_db [example_row]"
  have ok: "backend_ok 1 ?s" by (simp add: backend_ok_def example_db_def)
  have absent: "ID \<lparr>ID = ''ghost'', Secret = ''AQID''\<rparr> \<notin> set (map cm_ID (db_rows ?s))"
    by (simp add: example_db_def example_row_def)
  have found: "find (\<lambda>r. cm_ID r = ID \<lparr>ID = ''app'', Secret = ''AQID''\<rparr>) (db_rows ?s) = Some example_row"
    by (simp add: example_db_def example_row_def)
  have long: "DecodeString (EncodeToString (replicate 73 (0 :: byte))) = Inr (replicate 73 0)"
    by (rule DecodeString_EncodeToString)
  have a: "fst (Authenticate example_bcrypt \<lparr>ID = ''ghost'', Secret = ''AQID''\<rparr> ?s) = (False, None)"
    using Authenticate_false_paths[where s = ?s and creds = "\<lparr>ID = ''ghost'', Secret = ''AQID''\<rparr>"
        and bc = example_bcrypt] ok absent by blast
  have b: "fst (Authenticate example_bcrypt \<lparr>ID = ''app'', Secret = ''A''\<rparr> ?s) = (False, None)"
    using Authenticate_false_paths[where s = ?s and creds = "\<lparr>ID = ''app'', Secret = ''A''\<rparr>"
        and bc = example_bcrypt] ok DecodeString_short by simp
  have c: "fst (Authenticate example_bcrypt
                  \<lparr>ID = ''app'', Secret = EncodeToString (replicate 73 0)\<rparr> ?s) = (False, None)"
    using Authenticate_false_paths[where s = ?s
        and creds = "\<lparr>ID = ''app'', Secret = EncodeToString (replicate 73 0)\<rparr>"
        and bc = example_bcrypt] ok long by simp
  have d: "fst (Authenticate example_bcrypt \<lparr>ID = ''app'', Secret = ''AQID''\<rparr> ?s) = (True, None)"
    using Authenticate_false_paths[where s = ?s and creds = "\<lparr>ID = ''app'', Secret = ''AQID''\<rparr>"
        and bc = example_bcrypt and cim = example_row and dec = "[1, 2, 3]"]
      ok found DecodeString_AQID
    by (simp add: example_bcrypt_def example_row_def)
  from a b c d show ?thesis by simp
qed

section \<open>The administrator flag\<close>

text \<open>
  Claim C10. For an identifier that is not in the table, \<open>IsDexAdmin\<close> returns false and
  no error when the backend answers the lookup: a missing client looks like a client
  that is not an administrator.
\<close>

theorem IsDexAdmin_absent:
  "backend_ok 1 s \<Longrightarrow> clientID \<notin> set (map cm_ID (db_rows s)) \<Longrightarrow>
   fst (IsDexAdmin clientID s) = (False, None)"
proof -
  assume ok: "backend_ok 1 s" and absent: "clientID \<notin> set (map cm_ID (db_rows s))"
  from ok have ok': "backend_ok (Suc 0) s" by simp
  obtain m err s' where g: "exec_Get cm_ID clientID s = ((m, err), s')"
    by (cases "exec_Get cm_ID clientID s") auto
  from exec_Get_absent[OF ok' absent] g have "m = None" "err = None" by simp_all
  then show ?thesis by (simp add: IsDexAdmin_def g)
qed

theorem IsDexAdmin_absent_witness:
  "backend_ok 1 (example_db [example_row]) \<and>
   ''ghost'' \<notin> set (map cm_ID (db_rows (example_db [example_row]))) \<and>
   fst (IsDexAdmin ''ghost'' (example_db [example_row])) = (False, None)"
proof -
  have h1: "backend_ok 1 (example_db [example_row])"
    by (simp add: backend_ok_def example_db_def)
  have h2: "''ghost'' \<notin> set (map cm_ID (db_rows (example_db [example_row])))"
    by (simp add: example_db_def example_row_def)
  from IsDexAdmin_absent[OF h1 h2] h1 h2 show ?thesis by simp
qed

text \<open>
  Claim C2, as amended. For an identifier that is not in the table, \<open>SetDexAdmin\<close>
  writes nothing: the rows after the call are the rows before it, whatever the backend
  does. When the backend answers \<^verbatim>\<open>Begin\<close> and the lookup, the call returns no error: the
  guard \<^verbatim>\<open>if m == nil || err != nil { return err }\<close> returns the \<^verbatim>\<open>nil\<close> error of the
  lookup, so the call is a silent no-op.
\<close>

theorem SetDexAdmin_absent_no_write:
  "clientID \<notin> set (map cm_ID (db_rows s)) \<Longrightarrow>
   db_rows (snd (SetDexAdmin clientID isAdmin s)) = db_rows s \<and>
   (backend_ok 2 s \<longrightarrow> fst (SetDexAdmin clientID isAdmin s) = None)"
proof -
  assume absent: "clientID \<notin> set (map cm_ID (db_rows s))"
  have none: "find (\<lambda>r. cm_ID r = clientID) (db_rows s) = None"
    using absent by (auto simp: find_None_iff)
  show ?thesis
  proof (cases "Begin s")
    case (Pair b s1)
    show ?thesis
    proof (cases b)
      case (Inl e)
      with Pair have "\<not> backend_ok 2 s"
        using Begin_ok[of 1 s] by (auto simp: numeral_2_eq_2)
      with Pair Inl Begin_error[of s e s1] show ?thesis by (simp add: SetDexAdmin_def)
    next
      case (Inr t)
      with Pair have b: "Begin s = (Inr t, s1)" by simp
      note br = Begin_result[OF b]
      obtain m err s2 where g: "exec_Get cm_ID clientID s1 = ((m, err), s2)"
        by (cases "exec_Get cm_ID clientID s1") auto
      from exec_Get_result[OF g] br none have m: "m = None" by auto
      have res: "SetDexAdmin clientID isAdmin s = (err, Rollback t s2)"
        by (simp add: SetDexAdmin_def b g m)
      have rows: "db_rows (Rollback t s2) = db_rows s"
        using br by (simp add: Rollback_open)
      have "backend_ok 2 s \<longrightarrow> err = None"
      proof
        assume "backend_ok 2 s"
        then have "backend_ok (Suc (Suc 0)) s" by (simp add: numeral_2_eq_2)
        from Begin_ok[OF this] b have "backend_ok (Suc 0) s1" by auto
        from exec_Get_found[OF this, of cm_ID clientID] g show "err = None" by simp
      qed
      with res rows show ?thesis by simp
    qed
  qed
qed

theorem SetDexAdmin_absent_no_write_witness:
  "db_rows (snd (SetDexAdmin ''ghost'' True (example_db [example_row]))) = [example_row] \<and>
   fst (SetDexAdmin ''ghost'' True (example_db [example_row])) = None"
proof -
  have h: "''ghost'' \<notin> set (map cm_ID (db_rows (example_db [example_row])))"
    by (simp add: example_db_def example_row_def)
  have ok: "backend_ok 2 (example_db [example_row])"
    by (simp add: backend_ok_def example_db_def)
  from SetDexAdmin_absent_no_write[OF h, of True] ok show ?thesis
    by (simp add: example_db_def)
qed

text \<open>
  The claim as first stated fails: on a table that holds only the client \<^verbatim>\<open>app\<close>,
  setting the flag of \<^verbatim>\<open>ghost\<close> returns no error, and so not the not-found error.
\<close>

theorem SetDexAdmin_absent_counterexample:
  "''ghost'' \<notin> set (map cm_ID (db_rows (example_db [example_row]))) \<and>
   fst (SetDexAdmin ''ghost'' True (example_db [example_row])) = None \<and>
   fst (SetDexAdmin ''ghost'' True (example_db [example_row])) \<noteq> Some ClientErrorNotFound"
  by (simp add: SetDexAdmin_def example_db_def example_row_def exec_defs)

section \<open>Seeding the table from a list of clients\<close>

lemma insert_clients_fails:
  assumes "Secret (Credentials c) = [] \<or> (\<exists>e. newClientModel bc js c = Inl e) \<or>
           ID (Credentials c) \<in> set (map cm_ID (db_rows s)) \<union> set (map (\<lambda>x. ID (Credentials x)) pre)"
  shows "\<exists>e. fst (insert_clients bc js (pre @ c # post) s) = Some e"
  using assms
proof (induction pre arbitrary: s)
  case Nil
  show ?case
  proof (cases "Secret (Credentials c) = []")
    case True then show ?thesis by simp
  next
    case False
    show ?thesis
    proof (cases "newClientModel bc js c")
      case (Inl e) with False show ?thesis by simp
    next
      case (Inr cm)
      with Nil False have "cm_ID cm \<in> set (map cm_ID (db_rows s))"
        using newClientModel_ID[OF Inr] by auto
      from exec_Insert_present[OF this, of 0] obtain e s' where
        "exec_Insert cm_ID cm s = (Some e, s')" by blast
      with False Inr show ?thesis by simp
    qed
  qed
next
  case (Cons p pre)
  show ?case
  proof (cases "Secret (Credentials p) = []")
    case True then show ?thesis by simp
  next
    case False
    show ?thesis
    proof (cases "newClientModel bc js p")
      case (Inl e) with False show ?thesis by simp
    next
      case (Inr pm)
      obtain r s' where i: "exec_Insert cm_ID pm s = (r, s')" by (cases "exec_Insert cm_ID pm s")
      show ?thesis
      proof (cases r)
        case (Some e) with False Inr i show ?thesis by simp
      next
        case None
        with i have i': "exec_Insert cm_ID pm s = (None, s')" by simp
        from exec_Insert_success[OF i'] have "db_rows s' = db_rows s @ [pm]" by simp
        with Cons.prems newClientModel_ID[OF Inr]
        have "Secret (Credentials c) = [] \<or> (\<exists>e. newClientModel bc js c = Inl e) \<or>
              ID (Credentials c) \<in> set (map cm_ID (db_rows s')) \<union> set (map (\<lambda>x. ID (Credentials x)) pre)"
          by auto
        from Cons.IH[OF this] False Inr i None show ?thesis by simp
      qed
    qed
  qed
qed

lemma NewClientRepoFromClients_loop_error:
  assumes "fst (insert_clients bc js clients (snd (Begin s))) = Some e0"
  shows "\<exists>e. fst (NewClientRepoFromClients RandBytes bc js clients s) = Inl e"
proof (cases "Begin s")
  case (Pair b s1)
  show ?thesis
  proof (cases b)
    case (Inl e) with Pair show ?thesis by (simp add: NewClientRepoFromClients_def)
  next
    case (Inr t)
    obtain s2 where "insert_clients bc js clients s1 = (Some e0, s2)"
      using assms Pair by (cases "insert_clients bc js clients s1") auto
    with Pair Inr show ?thesis by (simp add: NewClientRepoFromClients_def)
  qed
qed

lemma NewClientRepoFromClients_error_keeps:
  assumes "fst (NewClientRepoFromClients RandBytes bc js clients s) = Inl e"
  shows "db_rows (snd (NewClientRepoFromClients RandBytes bc js clients s)) = db_rows s"
proof (cases "Begin s")
  case (Pair b s1)
  show ?thesis
  proof (cases b)
    case (Inl e') with Pair Begin_error[of s e' s1] show ?thesis
      by (simp add: NewClientRepoFromClients_def)
  next
    case (Inr t)
    with Pair have b: "Begin s = (Inr t, s1)" by simp
    note br = Begin_result[OF b]
    obtain r s2 where l: "insert_clients bc js clients s1 = (r, s2)"
      by (cases "insert_clients bc js clients s1")
    show ?thesis
    proof (cases r)
      case (Some e')
      with b l br show ?thesis
        by (simp add: NewClientRepoFromClients_def Rollback_open)
    next
      case None
      obtain c t' s3 where cm: "Commit t s2 = (c, t', s3)" by (cases "Commit t s2") auto
      show ?thesis
      proof (cases c)
        case (Some e')
        with cm br Commit_error[of t s2 e' t' s3] b l None show ?thesis
          by (simp add: NewClientRepoFromClients_def)
      next
        case None': None
        with assms b l None cm show ?thesis
          by (simp add: NewClientRepoFromClients_def)
      qed
    qed
  qed
qed

text \<open>
  Claim C6. \<open>NewClientRepoFromClients\<close> is all or nothing. If some client of the list has
  an empty secret, the call returns an error. More generally it returns an error if
  some client of the list has an empty secret, or a secret that cannot be decoded,
  hashed or have its metadata serialised, or an identifier that is already in the table
  or occurs earlier in the list. And whenever it returns an error, the rows of the table
  are the rows before the call: nothing of the list is kept, the clients before the
  failing one included.
\<close>

theorem NewClientRepoFromClients_all_or_nothing:
  "((\<exists>c \<in> set clients. Secret (Credentials c) = [])
      \<longrightarrow> (\<exists>e. fst (NewClientRepoFromClients RandBytes bc js clients s) = Inl e)) \<and>
   (clients = pre @ c # post \<and>
      (Secret (Credentials c) = [] \<or> (\<exists>e. newClientModel bc js c = Inl e) \<or>
       ID (Credentials c) \<in> set (map cm_ID (db_rows s)) \<union> set (map (\<lambda>x. ID (Credentials x)) pre))
      \<longrightarrow> (\<exists>e. fst (NewClientRepoFromClients RandBytes bc js clients s) = Inl e)) \<and>
   ((\<exists>e. fst (NewClientRepoFromClients RandBytes bc js clients s) = Inl e)
      \<longrightarrow> db_rows (snd (NewClientRepoFromClients RandBytes bc js clients s)) = db_rows s)"
proof -
  have item: "\<exists>e. fst (NewClientRepoFromClients RandBytes bc js (pre' @ c' # post') s) = Inl e"
    if "Secret (Credentials c') = [] \<or> (\<exists>e. newClientModel bc js c' = Inl e) \<or>
        ID (Credentials c') \<in> set (map cm_ID (db_rows s)) \<union> set (map (\<lambda>x. ID (Credentials x)) pre')"
    for pre' c' post'
  proof -
    have "db_rows (snd (Begin s)) = db_rows s"
      by (cases "Begin s" rule: prod.exhaust, cases "fst (Begin s)")
         (auto dest: Begin_result Begin_error)
    with that have "Secret (Credentials c') = [] \<or> (\<exists>e. newClientModel bc js c' = Inl e) \<or>
        ID (Credentials c') \<in> set (map cm_ID (db_rows (snd (Begin s)))) \<union>
          set (map (\<lambda>x. ID (Credentials x)) pre')" by simp
    from insert_clients_fails[OF this, of post'] NewClientRepoFromClients_loop_error
    show ?thesis by blast
  qed
  have empty: "\<exists>e. fst (NewClientRepoFromClients RandBytes bc js clients s) = Inl e"
    if "\<exists>c \<in> set clients. Secret (Credentials c) = []"
  proof -
    from that obtain c' where "c' \<in> set clients" "Secret (Credentials c') = []" by blast
    then obtain pre' post' where "clients = pre' @ c' # post'" by (meson split_list)
    with item[of c' pre' post'] \<open>Secret (Credentials c') = []\<close> show ?thesis by simp
  qed
  from item empty NewClientRepoFromClients_error_keeps show ?thesis by blast
qed

text \<open>
  Five clients of which the third has no secret, on a table with one row.
\<close>

theorem NewClientRepoFromClients_all_or_nothing_witness:
  "(\<exists>e. fst (NewClientRepoFromClients example_RandBytes example_bcrypt example_json
               example_clients (example_db [example_row])) = Inl e) \<and>
   db_rows (snd (NewClientRepoFromClients example_RandBytes example_bcrypt example_json
               example_clients (example_db [example_row]))) = [example_row]"
proof -
  have h: "\<exists>c \<in> set example_clients. Secret (Credentials c) = []"
    by (simp add: example_clients_def)
  note t = NewClientRepoFromClients_all_or_nothing[where clients = example_clients
      and RandBytes = example_RandBytes and bc = example_bcrypt and js = example_json
      and s = "example_db [example_row]"]
  from t h have e: "\<exists>e. fst (NewClientRepoFromClients example_RandBytes example_bcrypt
      example_json example_clients (example_db [example_row])) = Inl e" by blast
  with t have "db_rows (snd (NewClientRepoFromClients example_RandBytes example_bcrypt
      example_json example_clients (example_db [example_row]))) = db_rows (example_db [example_row])"
    by blast
  with e show ?thesis by (simp add: example_db_def)
qed

section \<open>Connector configurations\<close>

lemma Set_models_read_back:
  "Set_models cp cfgs = Inr ms \<Longrightarrow> \<forall>c \<in> set cfgs. reads_back cp c \<Longrightarrow> All_loop cp ms = Inr cfgs"
proof (induction cfgs arbitrary: ms)
  case Nil then show ?case by simp
next
  case (Cons c cfgs)
  from Cons.prems(1) obtain m ms' where
    m: "newConnectorConfigModel cp c = Inr m" and ms': "Set_models cp cfgs = Inr ms'" and
    ms: "ms = m # ms'"
    by (auto split: sum.splits)
  from Cons.prems(2) m have "ConnectorConfig cp m = Inr c" by (simp add: reads_back_def)
  moreover from Cons.IH[OF ms'] Cons.prems(2) have "All_loop cp ms' = Inr cfgs" by simp
  ultimately show ?case by (simp add: ms)
qed

lemma Set_success:
  assumes "fst (ConnectorConfigRepo_Set cp cfgs s) = None"
  shows "Set_models cp cfgs = Inr (db_rows (snd (ConnectorConfigRepo_Set cp cfgs s)))"
proof -
  from assms obtain ms where ms: "Set_models cp cfgs = Inr ms"
    by (cases "Set_models cp cfgs") (auto simp: ConnectorConfigRepo_Set_def)
  from assms ms obtain t s1 where b: "Begin s = (Inr t, s1)"
    by (cases "Begin s" rule: prod.exhaust, cases "fst (Begin s)") (auto simp: ConnectorConfigRepo_Set_def)
  obtain d s2 where del: "exec_Delete_all s1 = (d, s2)" by (cases "exec_Delete_all s1")
  from assms ms b del have d: "d = None" by (cases d) (auto simp: ConnectorConfigRepo_Set_def)
  obtain i s3 where ins: "exec_Insert_list cc_ID ms s2 = (i, s3)"
    by (cases "exec_Insert_list cc_ID ms s2")
  from assms ms b del d ins have i: "i = None" by (cases i) (auto simp: ConnectorConfigRepo_Set_def)
  obtain c t' s4 where cm: "Commit t s3 = (c, t', s4)" by (cases "Commit t s3") auto
  from assms ms b del d ins i cm have c: "c = None" by (simp add: ConnectorConfigRepo_Set_def)
  have res: "snd (ConnectorConfigRepo_Set cp cfgs s) = Rollback t' s4"
    by (simp add: ConnectorConfigRepo_Set_def ms b del d ins i cm)
  have "db_rows s3 = ms"
    using exec_Insert_list_success[OF ins[unfolded i]] exec_Delete_all_success[OF del[unfolded d]]
    by simp
  with Commit_success[OF cm[unfolded c]] res ms show ?thesis by simp
qed

lemma Set_error_keeps:
  assumes "fst (ConnectorConfigRepo_Set cp cfgs s) = Some e"
  shows "db_rows (snd (ConnectorConfigRepo_Set cp cfgs s)) = db_rows s"
proof (cases "Set_models cp cfgs")
  case (Inl e') then show ?thesis by (simp add: ConnectorConfigRepo_Set_def)
next
  case (Inr ms)
  show ?thesis
  proof (cases "Begin s" rule: prod.exhaust)
    fix b s1 assume bs: "Begin s = (b, s1)"
    show ?thesis
    proof (cases b)
      case (Inl e') with bs Inr Begin_error[of s e' s1] show ?thesis by (simp add: ConnectorConfigRepo_Set_def)
    next
      case t: (Inr t)
      with bs have b: "Begin s = (Inr t, s1)" by simp
      note br = Begin_result[OF b]
      obtain d s2 where del: "exec_Delete_all s1 = (d, s2)" by (cases "exec_Delete_all s1")
      show ?thesis
      proof (cases d)
        case (Some e') with Inr b del br show ?thesis by (simp add: ConnectorConfigRepo_Set_def Rollback_open)
      next
        case None
        obtain i s3 where ins: "exec_Insert_list cc_ID ms s2 = (i, s3)"
          by (cases "exec_Insert_list cc_ID ms s2")
        show ?thesis
        proof (cases i)
          case (Some e') with Inr b del None ins br show ?thesis
            by (simp add: ConnectorConfigRepo_Set_def Rollback_open)
        next
          case None': None
          obtain c t' s4 where cm: "Commit t s3 = (c, t', s4)" by (cases "Commit t s3") auto
          from assms Inr b del None ins None' cm obtain e' where c: "c = Some e'"
            by (cases c) (auto simp: ConnectorConfigRepo_Set_def)
          from Commit_error[of t s3 e' t' s4] cm c br
          have "db_rows (Rollback t' s4) = db_rows s" by simp
          with Inr b del None ins None' cm show ?thesis by (simp add: ConnectorConfigRepo_Set_def)
        qed
      qed
    qed
  qed
qed

lemma example_Set_first:
  "ConnectorConfigRepo_Set example_connector [(''a'', ''X''), (''b'', ''Y'')] (example_db []) =
   (None, example_db [example_config_row ''a'' ''X'' ''a'', example_config_row ''b'' ''Y'' ''b''])"
  by (simp add: ConnectorConfigRepo_Set_def newConnectorConfigModel_def example_connector_def example_db_def
        example_config_row_def exec_defs exec_Insert_def)

lemma example_Set_second:
  "ConnectorConfigRepo_Set example_connector [(''c'', ''X'')]
     (example_db [example_config_row ''a'' ''X'' ''a'', example_config_row ''b'' ''Y'' ''b'']) =
   (None, example_db [example_config_row ''c'' ''X'' ''c''])"
  by (simp add: ConnectorConfigRepo_Set_def newConnectorConfigModel_def example_connector_def example_db_def
        example_config_row_def exec_defs exec_Insert_def)

lemma example_Set_duplicate:
  "fst (ConnectorConfigRepo_Set example_connector [(''c'', ''X''), (''c'', ''Y'')]
     (example_db [example_config_row ''a'' ''X'' ''a'', example_config_row ''b'' ''Y'' ''b''])) =
   Some (InsertFailed (DriverError pgErrorCodeUniqueViolation))"
  by (simp add: ConnectorConfigRepo_Set_def newConnectorConfigModel_def example_connector_def example_db_def
        example_config_row_def exec_defs exec_Insert_def)

text \<open>
  Claim C7. \<open>ConnectorConfigRepo_Set\<close> replaces the table in one transaction. After a
  successful call the rows are exactly the rows built from the configurations supplied,
  in their order, and nothing of what the table held before; if the backend answers the
  select and every supplied configuration reads back from its row,
  \<open>ConnectorConfigRepo_All\<close> then returns exactly the supplied configurations. If the call
  returns an error, from the serialisation, from \<^verbatim>\<open>Begin\<close>, from the delete, from an insert
  or from the commit, the rows are those before the call.
\<close>

theorem Set_replaces_table:
  "(fst (ConnectorConfigRepo_Set cp cfgs s) = None
      \<longrightarrow> Set_models cp cfgs = Inr (db_rows (snd (ConnectorConfigRepo_Set cp cfgs s)))) \<and>
   (fst (ConnectorConfigRepo_Set cp cfgs s) = None \<and> backend_ok 1 (snd (ConnectorConfigRepo_Set cp cfgs s)) \<and>
      (\<forall>c \<in> set cfgs. reads_back cp c)
      \<longrightarrow> fst (ConnectorConfigRepo_All cp (snd (ConnectorConfigRepo_Set cp cfgs s))) = Inr cfgs) \<and>
   ((\<exists>e. fst (ConnectorConfigRepo_Set cp cfgs s) = Some e)
      \<longrightarrow> db_rows (snd (ConnectorConfigRepo_Set cp cfgs s)) = db_rows s)"
proof (intro conjI impI)
  assume "fst (ConnectorConfigRepo_Set cp cfgs s) = None"
  then show "Set_models cp cfgs = Inr (db_rows (snd (ConnectorConfigRepo_Set cp cfgs s)))" by (rule Set_success)
next
  assume a: "fst (ConnectorConfigRepo_Set cp cfgs s) = None \<and> backend_ok 1 (snd (ConnectorConfigRepo_Set cp cfgs s)) \<and>
      (\<forall>c \<in> set cfgs. reads_back cp c)"
  let ?s = "snd (ConnectorConfigRepo_Set cp cfgs s)"
  from a have ms: "Set_models cp cfgs = Inr (db_rows ?s)" by (simp add: Set_success)
  from a have "backend_ok (Suc 0) ?s" by simp
  from exec_Select_ok[OF this] obtain s' where sel: "exec_Select ?s = (Inr (db_rows ?s), s')"
    by (cases "exec_Select ?s") auto
  from Set_models_read_back[OF ms] a have "All_loop cp (db_rows ?s) = Inr cfgs" by simp
  with sel show "fst (ConnectorConfigRepo_All cp ?s) = Inr cfgs" by (simp add: ConnectorConfigRepo_All_def)
next
  assume "\<exists>e. fst (ConnectorConfigRepo_Set cp cfgs s) = Some e"
  then show "db_rows (snd (ConnectorConfigRepo_Set cp cfgs s)) = db_rows s" using Set_error_keeps by blast
qed

text \<open>
  The example of the specification: two configurations are set, then one;
  \<open>ConnectorConfigRepo_All\<close> returns the one. Setting two configurations with the same
  identifier fails at the second insert, after the delete, and leaves the two rows of
  before.
\<close>

theorem Set_replaces_table_witness:
  "fst (ConnectorConfigRepo_All example_connector
         (snd (ConnectorConfigRepo_Set example_connector [(''c'', ''X'')]
           (snd (ConnectorConfigRepo_Set example_connector [(''a'', ''X''), (''b'', ''Y'')] (example_db []))))))
     = Inr [(''c'', ''X'')] \<and>
   db_rows (snd (ConnectorConfigRepo_Set example_connector [(''c'', ''X''), (''c'', ''Y'')]
           (snd (ConnectorConfigRepo_Set example_connector [(''a'', ''X''), (''b'', ''Y'')] (example_db [])))))
     = [example_config_row ''a'' ''X'' ''a'', example_config_row ''b'' ''Y'' ''b'']"
proof -
  let ?s1 = "example_db [example_config_row ''a'' ''X'' ''a'', example_config_row ''b'' ''Y'' ''b'']"
  have ok: "backend_ok 1 (snd (ConnectorConfigRepo_Set example_connector [(''c'', ''X'')] ?s1))"
    by (simp only: example_Set_second snd_conv) (simp add: backend_ok_def example_db_def)
  have rb: "\<forall>c \<in> set [(''c'', ''X'')]. reads_back example_connector c"
    by (simp add: reads_back_def newConnectorConfigModel_def ConnectorConfig_def
          NewConnectorConfigFromType_def example_connector_def)
  note t = Set_replaces_table[where cp = example_connector and s = ?s1]
  from t[where cfgs = "[(''c'', ''X'')]"] ok rb
  have a: "fst (ConnectorConfigRepo_All example_connector (snd (ConnectorConfigRepo_Set example_connector [(''c'', ''X'')] ?s1)))
           = Inr [(''c'', ''X'')]"
    by (simp add: example_Set_second)
  from t[where cfgs = "[(''c'', ''X''), (''c'', ''Y'')]"] example_Set_duplicate
  have b: "db_rows (snd (ConnectorConfigRepo_Set example_connector [(''c'', ''X''), (''c'', ''Y'')] ?s1)) = db_rows ?s1"
    by simp
  have c: "db_rows ?s1 = [example_config_row ''a'' ''X'' ''a'', example_config_row ''b'' ''Y'' ''b'']"
    by (simp add: example_db_def)
  show ?thesis unfolding example_Set_first snd_conv using a b c by simp
qed

lemma All_loop_unknown:
  "\<exists>m \<in> set ms. types cp (cc_Type m) = None \<Longrightarrow> \<exists>e. All_loop cp ms = Inl e"
proof (induction ms)
  case Nil then show ?case by simp
next
  case (Cons m ms)
  show ?case
  proof (cases "types cp (cc_Type m)")
    case None
    then show ?thesis by (simp add: ConnectorConfig_def NewConnectorConfigFromType_def)
  next
    case (Some z)
    with Cons.prems have "\<exists>m \<in> set ms. types cp (cc_Type m) = None" by auto
    from Cons.IH[OF this] show ?thesis by (auto split: sum.splits)
  qed
qed

lemma All_loop_first_unknown:
  "\<forall>p \<in> set pre. \<exists>c. ConnectorConfig cp p = Inr c \<Longrightarrow> types cp (cc_Type m) = None \<Longrightarrow>
   All_loop cp (pre @ m # post) = Inl (UnknownTypeError (cc_Type m))"
proof (induction pre)
  case Nil
  then show ?case by (simp add: ConnectorConfig_def NewConnectorConfigFromType_def)
next
  case (Cons p pre)
  then obtain c where "ConnectorConfig cp p = Inr c" by auto
  with Cons show ?case by simp
qed

text \<open>
  Claim C8, as amended. If some row of the table has a type tag without a registered
  constructor, \<open>ConnectorConfigRepo_All\<close> fails as a whole: it returns an error and no
  configuration. The error is that of the first row that fails: it is the unknown-type
  error of the tag
  when the backend answers the select and every row before that row resolves and
  deserialises. \<open>GetConnectorByID\<close> for such a row fails with the unknown-type error of
  its tag when the backend answers.
\<close>

theorem All_unknown_type_fails:
  "((\<exists>m \<in> set (db_rows s). types cp (cc_Type m) = None)
      \<longrightarrow> (\<exists>e. fst (ConnectorConfigRepo_All cp s) = Inl e)) \<and>
   (backend_ok 1 s \<and> db_rows s = pre @ m # post \<and> types cp (cc_Type m) = None \<and>
      (\<forall>p \<in> set pre. \<exists>c. ConnectorConfig cp p = Inr c)
      \<longrightarrow> fst (ConnectorConfigRepo_All cp s) = Inl (UnknownTypeError (cc_Type m))) \<and>
   (backend_ok 1 s \<and> find (\<lambda>r. cc_ID r = connID) (db_rows s) = Some m' \<and>
      types cp (cc_Type m') = None
      \<longrightarrow> fst (GetConnectorByID cp connID s) = Inl (UnknownTypeError (cc_Type m')))"
proof (intro conjI impI)
  assume a: "\<exists>m \<in> set (db_rows s). types cp (cc_Type m) = None"
  obtain f s' where nf: "next_fault s = (f, s')" by (cases "next_fault s")
  show "\<exists>e. fst (ConnectorConfigRepo_All cp s) = Inl e"
  proof (cases f)
    case (Some e) with nf show ?thesis by (simp add: ConnectorConfigRepo_All_def exec_Select_def)
  next
    case None
    from a next_fault_keeps[OF nf] have "\<exists>m \<in> set (db_rows s'). types cp (cc_Type m) = None"
      by simp
    from All_loop_unknown[OF this] None nf show ?thesis by (simp add: ConnectorConfigRepo_All_def exec_Select_def)
  qed
next
  assume a: "backend_ok 1 s \<and> db_rows s = pre @ m # post \<and> types cp (cc_Type m) = None \<and>
      (\<forall>p \<in> set pre. \<exists>c. ConnectorConfig cp p = Inr c)"
  then have "backend_ok (Suc 0) s" by simp
  from exec_Select_ok[OF this] obtain s' where sel: "exec_Select s = (Inr (db_rows s), s')"
    by (cases "exec_Select s") auto
  from a All_loop_first_unknown[of pre cp m post]
  have "All_loop cp (db_rows s) = Inl (UnknownTypeError (cc_Type m))" by simp
  with sel show "fst (ConnectorConfigRepo_All cp s) = Inl (UnknownTypeError (cc_Type m))" by (simp add: ConnectorConfigRepo_All_def)
next
  assume a: "backend_ok 1 s \<and> find (\<lambda>r. cc_ID r = connID) (db_rows s) = Some m' \<and>
      types cp (cc_Type m') = None"
  then have ok: "backend_ok (Suc 0) s" by simp
  obtain f s' where nf: "next_fault s = (f, s')" by (cases "next_fault s")
  from next_fault_ok[OF ok nf] have f: "f = None" by simp
  from next_fault_keeps[OF nf] have r: "db_rows s' = db_rows s" by simp
  from a have one: "exec_SelectOne cc_ID connID s = (Inr m', s')"
    by (simp add: exec_SelectOne_def nf f r)
  from a show "fst (GetConnectorByID cp connID s) = Inl (UnknownTypeError (cc_Type m'))"
    by (simp add: GetConnectorByID_def one ConnectorConfig_def NewConnectorConfigFromType_def)
qed

theorem All_unknown_type_fails_witness:
  "fst (ConnectorConfigRepo_All example_connector
         (example_db [example_config_row ''a'' ''X'' ''a'', example_config_row ''b'' ''Z'' ''b'']))
     = Inl (UnknownTypeError ''Z'') \<and>
   fst (GetConnectorByID example_connector ''b''
         (example_db [example_config_row ''a'' ''X'' ''a'', example_config_row ''b'' ''Z'' ''b'']))
     = Inl (UnknownTypeError ''Z'')"
proof -
  let ?good = "example_config_row ''a'' ''X'' ''a''"
  let ?bad = "example_config_row ''b'' ''Z'' ''b''"
  let ?s = "example_db [?good, ?bad]"
  have ok: "backend_ok 1 ?s" by (simp add: backend_ok_def example_db_def)
  have rows: "db_rows ?s = [?good] @ ?bad # []" by (simp add: example_db_def)
  have unk: "types example_connector (cc_Type ?bad) = None"
    by (simp add: example_connector_def example_config_row_def)
  have pre: "\<forall>p \<in> set [?good]. \<exists>c. ConnectorConfig example_connector p = Inr c"
    by (simp add: ConnectorConfig_def NewConnectorConfigFromType_def example_connector_def
          example_config_row_def)
  have fnd: "find (\<lambda>r. cc_ID r = ''b'') (db_rows ?s) = Some ?bad"
    by (simp add: example_db_def example_config_row_def)
  note t = All_unknown_type_fails[where cp = example_connector and s = ?s and pre = "[?good]"
      and m = ?bad and post = "[]" and m' = ?bad and connID = "''b''"]
  from t ok rows unk pre have a: "fst (ConnectorConfigRepo_All example_connector ?s) = Inl (UnknownTypeError (cc_Type ?bad))"
    by blast
  from t ok fnd unk
  have b: "fst (GetConnectorByID example_connector ''b'' ?s) = Inl (UnknownTypeError (cc_Type ?bad))"
    by blast
  from a b show ?thesis by (simp add: example_config_row_def)
qed

text \<open>
  The claim as first stated fails on the kind of error: the first row has a registered
  type but a text that does not deserialise, the second row has the unregistered tag
  \<^verbatim>\<open>Z\<close>. \<open>ConnectorConfigRepo_All\<close> stops at the first row and returns the JSON error,
  not the unknown-type error.
\<close>

theorem All_unknown_type_counterexample:
  "types example_connector (cc_Type (example_config_row ''b'' ''Z'' ''b'')) = None \<and>
   example_config_row ''b'' ''Z'' ''b'' \<in>
     set (db_rows (example_db [example_config_row ''a'' ''X'' [], example_config_row ''b'' ''Z'' ''b''])) \<and>
   fst (ConnectorConfigRepo_All example_connector
         (example_db [example_config_row ''a'' ''X'' [], example_config_row ''b'' ''Z'' ''b'']))
     = Inl (JsonError ''unexpected end of JSON input'')"
  by (simp add: ConnectorConfigRepo_All_def ConnectorConfig_def NewConnectorConfigFromType_def example_connector_def
        example_db_def example_config_row_def exec_Select_def next_fault_def)

end
